theory Spec2Isabelle
  imports Main "HOL-Library.Sublist"
begin

section \<open>The Mattermost message-action adapter\<close>

text \<open>
  A shallow embedding of \<^verbatim>\<open>extensions/mattermost/src/actions.ts\<close>: the capability
  listing \<^verbatim>\<open>listActions\<close>, the tool-send recogniser \<^verbatim>\<open>extractToolSend\<close>, the client
  resolution \<^verbatim>\<open>resolveClient\<close> and the dispatcher \<^verbatim>\<open>handleMattermostAction\<close>.

  Strings are \<open>string\<close>. A thrown \<^verbatim>\<open>Error\<close> is a value of \<open>error\<close>, classified by the
  error kinds of the design and carrying the message of the \<^verbatim>\<open>Error\<close>. An asynchronous
  function that awaits remote operations returns the list of the remote calls it issued,
  in order, together with its outcome.
\<close>

subsection \<open>JavaScript values and strings\<close>

datatype error =
    ConfigurationError string
  | ValidationError string
  | UnsupportedActionError string
  | RemoteApiError string
  | TypeError string

fun errorMessage :: "error \<Rightarrow> string" where
  "errorMessage (ConfigurationError m) = m"
| "errorMessage (ValidationError m) = m"
| "errorMessage (UnsupportedActionError m) = m"
| "errorMessage (RemoteApiError m) = m"
| "errorMessage (TypeError m) = m"

text \<open>A value of type \<^verbatim>\<open>unknown\<close> in a parameter bag; an absent key is \<open>None\<close> of the map.\<close>

datatype jsvalue =
    JNull
  | JBool bool
  | JNumber int
  | JString string
  | JOther

type_synonym params = "string \<rightharpoonup> jsvalue"

text \<open>A property of a remote payload or of a normalized result: absent, \<^verbatim>\<open>null\<close> or a value.\<close>

datatype 'a jsfield = Undefined | Null | Val 'a

text \<open>
  \<^verbatim>\<open>String.prototype.trim\<close>: the white space and line terminators of ECMAScript that
  fit a \<open>char\<close> (TAB, LF, VT, FF, CR, SP, NBSP) are stripped at both ends.
\<close>

definition isWhiteSpace :: "char \<Rightarrow> bool" where
  "isWhiteSpace c \<longleftrightarrow>
     c = CHR 0x09 \<or> c = CHR 0x0A \<or> c = CHR 0x0B \<or> c = CHR 0x0C \<or> c = CHR 0x0D \<or>
     c = CHR 0x20 \<or> c = CHR 0xA0"

definition js_trim :: "string \<Rightarrow> string" where
  "js_trim s = rev (dropWhile isWhiteSpace (rev (dropWhile isWhiteSpace s)))"

text \<open>Truthiness of an optional string: \<^verbatim>\<open>undefined\<close> and \<^verbatim>\<open>""\<close> are falsy.\<close>

fun truthy :: "string option \<Rightarrow> bool" where
  "truthy None = False"
| "truthy (Some s) = (s \<noteq> [])"

subsection \<open>Accounts and configuration\<close>

text \<open>
  The account object that \<^verbatim>\<open>./mattermost/accounts.js\<close> resolves. \<^verbatim>\<open>botToken\<close> and
  \<^verbatim>\<open>baseUrl\<close> may be undefined (the adapter reads them with \<^verbatim>\<open>?.\<close> and by truthiness).
\<close>

record account =
  accountId :: string
  botToken :: "string option"
  baseUrl :: "string option"
  enabled :: bool

text \<open>
  The part of \<^verbatim>\<open>OpenClawConfig\<close> the adapter reads: the configured Mattermost accounts,
  in configuration order, and \<^verbatim>\<open>channels.mattermost.actions\<close>, a record of optional
  booleans (the empty map when \<^verbatim>\<open>actions\<close> or \<^verbatim>\<open>channels.mattermost\<close> is undefined).
\<close>

record config =
  accounts :: "account list"
  actions :: "string \<rightharpoonup> bool"

definition listEnabledMattermostAccounts :: "config \<Rightarrow> account list" where
  \<comment> \<open>Modelled from the spec: \<^verbatim>\<open>listEnabledMattermostAccounts\<close> of \<^verbatim>\<open>./mattermost/accounts.js\<close>
      is not among the sources. Section 4.1: all accounts that are not explicitly disabled
      and have a non-empty token and base URL, in configuration order; may be empty.\<close>
  "listEnabledMattermostAccounts cfg =
     filter (\<lambda>a. enabled a \<and> truthy (botToken a) \<and> truthy (baseUrl a)) (accounts cfg)"

definition DEFAULT_ACCOUNT_ID :: string where
  "DEFAULT_ACCOUNT_ID = ''default''"

definition resolveMattermostAccount :: "config \<Rightarrow> string option \<Rightarrow> error + account" where
  \<comment> \<open>Modelled from the spec: \<^verbatim>\<open>resolveMattermostAccount\<close> of \<^verbatim>\<open>./mattermost/accounts.js\<close>
      is not among the sources. Section 4.1: picks the account matching \<^verbatim>\<open>accountId\<close> when
      given, otherwise the default account; fails with a ConfigurationError when no
      matching/default account exists. Enablement is not checked (section 9).\<close>
  "resolveMattermostAccount cfg accId =
     (let wanted = (case accId of None \<Rightarrow> DEFAULT_ACCOUNT_ID | Some i \<Rightarrow> i) in
      case find (\<lambda>a. accountId a = wanted) (accounts cfg) of
        None \<Rightarrow> Inl (ConfigurationError (''Mattermost account not found: '' @ wanted))
      | Some a \<Rightarrow> Inr a)"

definition createActionGate :: "(string \<rightharpoonup> bool) \<Rightarrow> string \<Rightarrow> bool" where
  \<comment> \<open>Modelled from the spec: \<^verbatim>\<open>createActionGate\<close> of \<^verbatim>\<open>openclaw/plugin-sdk\<close> is not among
      the sources. Section 4.3: for each gate name, true unless
      \<^verbatim>\<open>actionsConfig[gateName] === false\<close>.\<close>
  "createActionGate actionsConfig gateName \<longleftrightarrow> actionsConfig gateName \<noteq> Some False"

subsection \<open>listActions\<close>

text \<open>
  \<^verbatim>\<open>listActionsOf\<close> is the body of \<^verbatim>\<open>listActions\<close> after the call of
  \<^verbatim>\<open>listEnabledMattermostAccounts(cfg)\<close>, whose result is its first argument. The
  \<^verbatim>\<open>Set\<close> is built by insertion into a list without duplicates, which is the order
  \<^verbatim>\<open>Array.from\<close> returns.
\<close>

definition setAdd :: "string \<Rightarrow> string list \<Rightarrow> string list" where
  "setAdd x xs = (if x \<in> set xs then xs else xs @ [x])"

definition listActionsOf :: "account list \<Rightarrow> config \<Rightarrow> string list" where
  "listActionsOf enabledAccounts cfg =
     (let accs = filter (\<lambda>account. truthy (botToken account) \<and> truthy (baseUrl account))
                   enabledAccounts in
      if length accs = 0 then []
      else
        let gate = createActionGate (actions cfg);
            a0 = [''send''];
            a1 = (if gate ''reactions'' then setAdd ''reactions'' (setAdd ''react'' a0) else a0);
            a2 = (if gate ''messages''
                  then setAdd ''delete'' (setAdd ''edit'' (setAdd ''read'' a1)) else a1);
            a3 = (if gate ''pins''
                  then setAdd ''list-pins'' (setAdd ''unpin'' (setAdd ''pin'' a2)) else a2)
        in a3)"

definition listActions :: "config \<Rightarrow> string list" where
  "listActions cfg = listActionsOf (listEnabledMattermostAccounts cfg) cfg"

text \<open>An account that \<^verbatim>\<open>listActions\<close> counts: enabled, with a non-empty token and base URL.\<close>

definition usable :: "account \<Rightarrow> bool" where
  "usable a \<longleftrightarrow> enabled a \<and> truthy (botToken a) \<and> truthy (baseUrl a)"

definition hasUsableAccount :: "config \<Rightarrow> bool" where
  "hasUsableAccount cfg \<longleftrightarrow> list_ex usable (accounts cfg)"

definition reactionActions :: "string set" where
  "reactionActions = {''react'', ''reactions''}"

definition messageActions :: "string set" where
  "messageActions = {''read'', ''edit'', ''delete''}"

definition pinActions :: "string set" where
  "pinActions = {''pin'', ''unpin'', ''list-pins''}"

definition gated :: "config \<Rightarrow> string \<Rightarrow> string set \<Rightarrow> string set" where
  "gated cfg g s = (if actions cfg g = Some False then {} else s)"

subsection \<open>Parameter readers of the plugin SDK\<close>

record stringParamOptions =
  required :: bool
  trim :: bool
  allowEmpty :: bool

definition defaults :: stringParamOptions where
  "defaults = \<lparr>required = False, trim = True, allowEmpty = False\<rparr>"

definition readStringParam :: "params \<Rightarrow> string \<Rightarrow> stringParamOptions \<Rightarrow> error + string option" where
  \<comment> \<open>Modelled from the spec: \<^verbatim>\<open>readStringParam\<close> of \<^verbatim>\<open>openclaw/plugin-sdk\<close> is not among
      the sources. Section 4.4: a required string parameter that is missing or blank fails
      with a ValidationError naming the field; an optional one is then undefined. The
      options are those the adapter passes: \<^verbatim>\<open>required\<close>, \<^verbatim>\<open>trim\<close> (on unless
      \<^verbatim>\<open>trim: false\<close>) and \<^verbatim>\<open>allowEmpty\<close> (the empty string is then a value).\<close>
  "readStringParam ps key opts =
     (case ps key of
        Some (JString raw) \<Rightarrow>
          (let v = (if trim opts then js_trim raw else raw) in
           if v = [] \<and> \<not> allowEmpty opts
           then (if required opts then Inl (ValidationError (key @ '' required''))
                 else Inr None)
           else Inr (Some v))
      | _ \<Rightarrow>
          (if required opts then Inl (ValidationError (key @ '' required''))
           else Inr None))"

definition readRequiredString :: "params \<Rightarrow> string \<Rightarrow> stringParamOptions \<Rightarrow> error + string" where
  \<comment> \<open>The overload of \<^verbatim>\<open>readStringParam\<close> with \<^verbatim>\<open>required: true\<close>, whose result is a string.\<close>
  "readRequiredString ps key opts =
     (case readStringParam ps key (opts\<lparr>required := True\<rparr>) of
        Inl e \<Rightarrow> Inl e
      | Inr None \<Rightarrow> Inl (ValidationError (key @ '' required''))
      | Inr (Some v) \<Rightarrow> Inr v)"

definition readNumberParam :: "params \<Rightarrow> string \<Rightarrow> int option" where
  \<comment> \<open>Modelled from the spec: \<^verbatim>\<open>readNumberParam\<close> of \<^verbatim>\<open>openclaw/plugin-sdk\<close> is not among
      the sources. Section 4.4: the optional integer \<^verbatim>\<open>limit\<close>; undefined when absent.\<close>
  "readNumberParam ps key = (case ps key of Some (JNumber n) \<Rightarrow> Some n | _ \<Rightarrow> None)"

definition readReactionParams :: "params \<Rightarrow> string \<Rightarrow> error + (string \<times> bool)" where
  \<comment> \<open>Modelled from the spec: \<^verbatim>\<open>readReactionParams\<close> of \<^verbatim>\<open>openclaw/plugin-sdk\<close> is not
      among the sources. Section 4.4: \<^verbatim>\<open>react\<close> requires \<^verbatim>\<open>emoji\<close> (or \<^verbatim>\<open>remove: true\<close>
      with \<^verbatim>\<open>emoji\<close>); without an emoji it fails with a ValidationError mentioning the
      emoji, which for a removal is the \<^verbatim>\<open>removeErrorMessage\<close> the adapter passes.\<close>
  "readReactionParams ps removeErrorMessage =
     (let remove = (ps ''remove'' = Some (JBool True)) in
      case readStringParam ps ''emoji'' defaults of
        Inl e \<Rightarrow> Inl e
      | Inr None \<Rightarrow>
          Inl (ValidationError (if remove then removeErrorMessage else ''emoji required''))
      | Inr (Some emoji) \<Rightarrow> Inr (emoji, remove))"

subsection \<open>The remote client\<close>

record client =
  clientBaseUrl :: string
  apiBaseUrl :: string
  token :: string

definition normalizeMattermostBaseUrl :: "string option \<Rightarrow> string option" where
  \<comment> \<open>Modelled from the spec: \<^verbatim>\<open>normalizeMattermostBaseUrl\<close> of \<^verbatim>\<open>./mattermost/client.js\<close>
      is not among the sources. Section 4.2: the base URL with trailing slashes stripped.\<close>
  "normalizeMattermostBaseUrl url =
     map_option (\<lambda>u. rev (dropWhile (\<lambda>c. c = CHR ''/'') (rev u))) url"

definition createMattermostClient :: "string \<Rightarrow> string \<Rightarrow> error + client" where
  \<comment> \<open>Modelled from the spec: \<^verbatim>\<open>createMattermostClient\<close> of \<^verbatim>\<open>./mattermost/client.js\<close> is
      not among the sources. Section 4.2: normalizes the base URL before deriving the API
      base URL (base URL + versioned API path); fails with a ConfigurationError if the
      normalized base URL is empty.\<close>
  "createMattermostClient url botTok =
     (case normalizeMattermostBaseUrl (Some url) of
        None \<Rightarrow> Inl (ConfigurationError ''Mattermost baseUrl is required'')
      | Some b \<Rightarrow>
          if b = [] then Inl (ConfigurationError ''Mattermost baseUrl is required'')
          else Inr \<lparr>clientBaseUrl = b, apiBaseUrl = b @ ''/api/v4'', token = botTok\<rparr>)"

definition resolveClient :: "config \<Rightarrow> string option \<Rightarrow> error + (client \<times> string)" where
  "resolveClient cfg accId =
     (case resolveMattermostAccount cfg accId of
        Inl e \<Rightarrow> Inl e
      | Inr account \<Rightarrow>
          (let tokenMissing = ConfigurationError
                 (''Mattermost bot token missing for account '' @ [CHR 0x22] @
                  accountId account @ [CHR 0x22]);
               baseUrlMissing = ConfigurationError
                 (''Mattermost baseUrl missing for account '' @ [CHR 0x22] @
                  accountId account @ [CHR 0x22])
           in
           case map_option js_trim (botToken account) of
             None \<Rightarrow> Inl tokenMissing
           | Some tok \<Rightarrow>
               if tok = [] then Inl tokenMissing
               else
                 (case normalizeMattermostBaseUrl (baseUrl account) of
                    None \<Rightarrow> Inl baseUrlMissing
                  | Some url \<Rightarrow>
                      if url = [] then Inl baseUrlMissing
                      else
                        (case createMattermostClient url tok of
                           Inl e \<Rightarrow> Inl e
                         | Inr c \<Rightarrow> Inr (c, accountId account)))))"

definition resolveChannelId :: "params \<Rightarrow> error + string" where
  "resolveChannelId ps =
     (case readStringParam ps ''channelId'' defaults of
        Inl e \<Rightarrow> Inl e
      | Inr (Some c) \<Rightarrow> Inr c
      | Inr None \<Rightarrow> readRequiredString ps ''to'' defaults)"

subsection \<open>Remote payloads and remote operations\<close>

record user =
  u_id :: string
  u_username :: string

record post =
  p_id :: "string jsfield"
  p_user_id :: "string jsfield"
  p_message :: "string jsfield"
  p_create_at :: "int jsfield"
  p_root_id :: "string jsfield"
  p_file_ids :: "string list jsfield"

text \<open>
  A list response \<^verbatim>\<open>{order, posts}\<close>. The \<^verbatim>\<open>posts\<close> object is kept as the list of its
  entries in key insertion order; \<^verbatim>\<open>posts[id]\<close> is \<open>map_of\<close>.
\<close>

record postList =
  order :: "string list"
  posts :: "(string \<times> post) list"

record reaction =
  r_user_id :: "string jsfield"
  r_emoji_name :: "string jsfield"
  r_create_at :: "int jsfield"

record sendResult =
  s_messageId :: string
  s_channelId :: string

text \<open>
  The remote operations of \<^verbatim>\<open>./mattermost/client.js\<close> and \<^verbatim>\<open>./mattermost/send.js\<close> are
  external collaborators: \<open>remote\<close> gives the answer of each (a rejection is \<open>Inl\<close>), and
  \<open>call\<close> records that the operation was invoked, with its arguments.
  \<^verbatim>\<open>getMattermostReactions\<close> answers \<open>None\<close> for the \<^verbatim>\<open>null\<close> the server sends when a post
  has no reactions.
\<close>

datatype call =
    FetchMe client
  | AddReaction client string string string
  | RemoveReaction client string string string
  | GetReactions client string
  | GetChannelPosts client string "int option" "string option" "string option"
  | UpdatePost client string string
  | DeletePost client string
  | PinPost client string
  | UnpinPost client string
  | GetPinnedPosts client string
  | SendMessage string string "string option" "string option" "string option"

record remote =
  fetchMattermostMe :: "client \<Rightarrow> error + user"
  addMattermostReaction :: "client \<Rightarrow> string \<Rightarrow> string \<Rightarrow> string \<Rightarrow> error + unit"
  removeMattermostReaction :: "client \<Rightarrow> string \<Rightarrow> string \<Rightarrow> string \<Rightarrow> error + unit"
  getMattermostReactions :: "client \<Rightarrow> string \<Rightarrow> error + reaction list option"
  getMattermostChannelPosts ::
    "client \<Rightarrow> string \<Rightarrow> int option \<Rightarrow> string option \<Rightarrow> string option \<Rightarrow> error + postList"
  updateMattermostPost :: "client \<Rightarrow> string \<Rightarrow> string \<Rightarrow> error + post"
  deleteMattermostPost :: "client \<Rightarrow> string \<Rightarrow> error + unit"
  pinMattermostPost :: "client \<Rightarrow> string \<Rightarrow> error + unit"
  unpinMattermostPost :: "client \<Rightarrow> string \<Rightarrow> error + unit"
  getPinnedMattermostPosts :: "client \<Rightarrow> string \<Rightarrow> error + postList"
  sendMessageMattermost ::
    "string \<Rightarrow> string \<Rightarrow> string option \<Rightarrow> string option \<Rightarrow> string option \<Rightarrow> error + sendResult"

text \<open>The outcome of an asynchronous function: the remote calls issued, and its result.\<close>

type_synonym 'a io = "call list \<times> (error + 'a)"

definition ok :: "'a \<Rightarrow> 'a io" where
  "ok x = ([], Inr x)"

definition sync :: "error + 'a \<Rightarrow> 'a io" where
  \<comment> \<open>a synchronous step, which may throw\<close>
  "sync r = ([], r)"

definition await :: "call \<Rightarrow> error + 'a \<Rightarrow> 'a io" where
  \<comment> \<open>a remote operation is invoked and awaited; its rejection is thrown\<close>
  "await c r = ([c], r)"

definition andThen :: "'a io \<Rightarrow> ('a \<Rightarrow> 'b io) \<Rightarrow> 'b io" where
  "andThen m f =
     (case m of
        (cs, Inl e) \<Rightarrow> (cs, Inl e)
      | (cs, Inr x) \<Rightarrow> (case f x of (cs', r) \<Rightarrow> (cs @ cs', r)))"

subsection \<open>Normalized results\<close>

record message =
  m_id :: "string jsfield"
  m_userId :: "string jsfield"
  m_message :: "string jsfield"
  m_createdAt :: "int jsfield"
  m_rootId :: "string jsfield"
  m_fileIds :: "string list jsfield"

record pin =
  pin_id :: "string jsfield"
  pin_userId :: "string jsfield"
  pin_message :: "string jsfield"
  pin_createdAt :: "int jsfield"

record reactionEntry =
  re_userId :: "string jsfield"
  re_emoji :: "string jsfield"
  re_createdAt :: "int jsfield"

text \<open>
  The payloads handed to \<^verbatim>\<open>jsonResult\<close>, one constructor per object literal; every one
  has \<^verbatim>\<open>ok: true\<close>.
\<close>

datatype actionResult =
    SendOk sendResult
  | ReactRemoved string
  | ReactAdded string
  | ReactionsOk string "reactionEntry list"
  | ReadOk string "message list"
  | EditOk "string jsfield" "string jsfield"
  | DeleteOk string
  | PinOk string
  | UnpinOk string
  | ListPinsOk string "pin list"

text \<open>\<^verbatim>\<open>post?.f\<close>: the property of the post, undefined when the post is.\<close>

definition opt :: "post option \<Rightarrow> (post \<Rightarrow> 'a jsfield) \<Rightarrow> 'a jsfield" where
  "opt p f = (case p of None \<Rightarrow> Undefined | Some q \<Rightarrow> f q)"

definition toMessage :: "post option \<Rightarrow> message" where
  \<comment> \<open>the arrow function of the \<^verbatim>\<open>read\<close> branch, applied to \<^verbatim>\<open>result.posts[id]\<close>\<close>
  "toMessage p =
     \<lparr>m_id = opt p p_id,
      m_userId = opt p p_user_id,
      m_message = opt p p_message,
      m_createdAt = opt p p_create_at,
      m_rootId = (case opt p p_root_id of
                    Val r \<Rightarrow> if r = [] then Undefined else Val r
                  | _ \<Rightarrow> Undefined),
      m_fileIds = (case opt p p_file_ids of
                     Val fs \<Rightarrow> if length fs = 0 then Undefined else Val fs
                   | _ \<Rightarrow> Undefined)\<rparr>"

definition toPin :: "post option \<Rightarrow> pin" where
  \<comment> \<open>the arrow function of the \<^verbatim>\<open>list-pins\<close> branch, applied to \<^verbatim>\<open>result.posts[id]\<close>\<close>
  "toPin p =
     \<lparr>pin_id = opt p p_id,
      pin_userId = opt p p_user_id,
      pin_message = opt p p_message,
      pin_createdAt = opt p p_create_at\<rparr>"

definition messagesOf :: "postList \<Rightarrow> message list" where
  \<comment> \<open>\<^verbatim>\<open>result.order.map((id) => ...)\<close> of the \<^verbatim>\<open>read\<close> branch\<close>
  "messagesOf result = map (\<lambda>i. toMessage (map_of (posts result) i)) (order result)"

definition pinsOf :: "postList \<Rightarrow> pin list" where
  \<comment> \<open>\<^verbatim>\<open>result.order.map((id) => ...)\<close> of the \<^verbatim>\<open>list-pins\<close> branch\<close>
  "pinsOf result = map (\<lambda>i. toPin (map_of (posts result) i)) (order result)"

definition toReactionEntry :: "reaction \<Rightarrow> reactionEntry" where
  "toReactionEntry r =
     \<lparr>re_userId = r_user_id r, re_emoji = r_emoji_name r, re_createdAt = r_create_at r\<rparr>"

subsection \<open>The dispatcher\<close>

text \<open>Each branch of \<^verbatim>\<open>handleMattermostAction\<close> is a definition of its own.\<close>

definition handleSend :: "remote \<Rightarrow> params \<Rightarrow> string option \<Rightarrow> actionResult io" where
  "handleSend rem ps accId =
     andThen (sync (readRequiredString ps ''to'' defaults)) (\<lambda>to.
     andThen (sync (readRequiredString ps ''message'' (defaults\<lparr>allowEmpty := True\<rparr>))) (\<lambda>msg.
     andThen (sync (readStringParam ps ''media'' (defaults\<lparr>trim := False\<rparr>))) (\<lambda>mediaUrl.
     andThen (sync (readStringParam ps ''replyTo'' defaults)) (\<lambda>replyTo.
     andThen (await (SendMessage to msg accId mediaUrl replyTo)
                (sendMessageMattermost rem to msg accId mediaUrl replyTo)) (\<lambda>result.
     ok (SendOk result))))))"

definition removeErrorMessage :: string where
  \<comment> \<open>the \<^verbatim>\<open>removeErrorMessage\<close> option of the \<^verbatim>\<open>react\<close> branch\<close>
  "removeErrorMessage = ''Removing a Mattermost reaction requires an emoji name.''"

definition handleReact :: "remote \<Rightarrow> params \<Rightarrow> config \<Rightarrow> string option \<Rightarrow> actionResult io" where
  "handleReact rem ps cfg accId =
     andThen (sync (readRequiredString ps ''messageId'' defaults)) (\<lambda>messageId.
     andThen (sync (readReactionParams ps removeErrorMessage)) (\<lambda>(emoji, remove).
     andThen (sync (resolveClient cfg accId)) (\<lambda>(c, _).
     andThen (await (FetchMe c) (fetchMattermostMe rem c)) (\<lambda>botUser.
     if remove
     then andThen (await (RemoveReaction c (u_id botUser) messageId emoji)
                     (removeMattermostReaction rem c (u_id botUser) messageId emoji)) (\<lambda>_.
          ok (ReactRemoved emoji))
     else andThen (await (AddReaction c (u_id botUser) messageId emoji)
                     (addMattermostReaction rem c (u_id botUser) messageId emoji)) (\<lambda>_.
          ok (ReactAdded emoji))))))"

definition handleReactions :: "remote \<Rightarrow> params \<Rightarrow> config \<Rightarrow> string option \<Rightarrow> actionResult io" where
  "handleReactions rem ps cfg accId =
     andThen (sync (readRequiredString ps ''messageId'' defaults)) (\<lambda>messageId.
     andThen (sync (resolveClient cfg accId)) (\<lambda>(c, _).
     andThen (await (GetReactions c messageId) (getMattermostReactions rem c messageId)) (\<lambda>reactions.
     case reactions of
       None \<Rightarrow> sync (Inl (TypeError ''Cannot read properties of null (reading 'map')''))
     | Some rs \<Rightarrow> ok (ReactionsOk messageId (map toReactionEntry rs)))))"

definition handleRead :: "remote \<Rightarrow> params \<Rightarrow> config \<Rightarrow> string option \<Rightarrow> actionResult io" where
  "handleRead rem ps cfg accId =
     andThen (sync (resolveChannelId ps)) (\<lambda>channelId.
     let limit = readNumberParam ps ''limit'' in
     andThen (sync (readStringParam ps ''before'' defaults)) (\<lambda>before.
     andThen (sync (readStringParam ps ''after'' defaults)) (\<lambda>after.
     andThen (sync (resolveClient cfg accId)) (\<lambda>(c, _).
     andThen (await (GetChannelPosts c channelId limit before after)
                (getMattermostChannelPosts rem c channelId limit before after)) (\<lambda>result.
     ok (ReadOk channelId (messagesOf result)))))))"

definition handleEdit :: "remote \<Rightarrow> params \<Rightarrow> config \<Rightarrow> string option \<Rightarrow> actionResult io" where
  "handleEdit rem ps cfg accId =
     andThen (sync (readRequiredString ps ''messageId'' defaults)) (\<lambda>messageId.
     andThen (sync (readRequiredString ps ''message'' defaults)) (\<lambda>msg.
     andThen (sync (resolveClient cfg accId)) (\<lambda>(c, _).
     andThen (await (UpdatePost c messageId msg) (updateMattermostPost rem c messageId msg)) (\<lambda>updated.
     ok (EditOk (p_id updated) (p_message updated))))))"

definition handleDelete :: "remote \<Rightarrow> params \<Rightarrow> config \<Rightarrow> string option \<Rightarrow> actionResult io" where
  "handleDelete rem ps cfg accId =
     andThen (sync (readRequiredString ps ''messageId'' defaults)) (\<lambda>messageId.
     andThen (sync (resolveClient cfg accId)) (\<lambda>(c, _).
     andThen (await (DeletePost c messageId) (deleteMattermostPost rem c messageId)) (\<lambda>_.
     ok (DeleteOk messageId))))"

definition handlePin :: "remote \<Rightarrow> params \<Rightarrow> config \<Rightarrow> string option \<Rightarrow> actionResult io" where
  "handlePin rem ps cfg accId =
     andThen (sync (readRequiredString ps ''messageId'' defaults)) (\<lambda>messageId.
     andThen (sync (resolveClient cfg accId)) (\<lambda>(c, _).
     andThen (await (PinPost c messageId) (pinMattermostPost rem c messageId)) (\<lambda>_.
     ok (PinOk messageId))))"

definition handleUnpin :: "remote \<Rightarrow> params \<Rightarrow> config \<Rightarrow> string option \<Rightarrow> actionResult io" where
  "handleUnpin rem ps cfg accId =
     andThen (sync (readRequiredString ps ''messageId'' defaults)) (\<lambda>messageId.
     andThen (sync (resolveClient cfg accId)) (\<lambda>(c, _).
     andThen (await (UnpinPost c messageId) (unpinMattermostPost rem c messageId)) (\<lambda>_.
     ok (UnpinOk messageId))))"

definition handleListPins :: "remote \<Rightarrow> params \<Rightarrow> config \<Rightarrow> string option \<Rightarrow> actionResult io" where
  "handleListPins rem ps cfg accId =
     andThen (sync (resolveChannelId ps)) (\<lambda>channelId.
     andThen (sync (resolveClient cfg accId)) (\<lambda>(c, _).
     andThen (await (GetPinnedPosts c channelId) (getPinnedMattermostPosts rem c channelId)) (\<lambda>result.
     ok (ListPinsOk channelId (pinsOf result)))))"

definition unsupportedMessage :: "string \<Rightarrow> string" where
  "unsupportedMessage action = ''Action '' @ action @ '' is not supported for Mattermost.''"

definition requestedAccountId :: "string option \<Rightarrow> params \<Rightarrow> error + string option" where
  \<comment> \<open>\<^verbatim>\<open>ctx.accountId ?? readStringParam(params, "accountId")\<close>\<close>
  "requestedAccountId ctxAccountId ps =
     (case ctxAccountId of
        Some a \<Rightarrow> Inr (Some a)
      | None \<Rightarrow> readStringParam ps ''accountId'' defaults)"

definition handleMattermostAction ::
  "remote \<Rightarrow> string \<Rightarrow> params \<Rightarrow> config \<Rightarrow> string option \<Rightarrow> actionResult io" where
  "handleMattermostAction rem action ps cfg ctxAccountId =
     andThen (sync (requestedAccountId ctxAccountId ps)) (\<lambda>accId.
     if action = ''send'' then handleSend rem ps accId
     else if action = ''react'' then handleReact rem ps cfg accId
     else if action = ''reactions'' then handleReactions rem ps cfg accId
     else if action = ''read'' then handleRead rem ps cfg accId
     else if action = ''edit'' then handleEdit rem ps cfg accId
     else if action = ''delete'' then handleDelete rem ps cfg accId
     else if action = ''pin'' then handlePin rem ps cfg accId
     else if action = ''unpin'' then handleUnpin rem ps cfg accId
     else if action = ''list-pins'' then handleListPins rem ps cfg accId
     else sync (Inl (UnsupportedActionError (unsupportedMessage action))))"

definition handleAction ::
  "remote \<Rightarrow> string \<Rightarrow> params \<Rightarrow> config \<Rightarrow> string option \<Rightarrow> actionResult io" where
  "handleAction rem action ps cfg accId = handleMattermostAction rem action ps cfg accId"

definition extractToolSend :: "params \<Rightarrow> string option" where
  \<comment> \<open>\<open>Some to\<close> is the object \<^verbatim>\<open>{ to }\<close>, \<open>None\<close> is \<^verbatim>\<open>null\<close>\<close>
  "extractToolSend args =
     (let action = (case args ''action'' of Some (JString a) \<Rightarrow> js_trim a | _ \<Rightarrow> [])
      in
      if action = ''sendMessage''
      then (case args ''to'' of
              Some (JString t) \<Rightarrow> if t \<noteq> [] then Some t else None
            | _ \<Rightarrow> None)
      else None)"

text \<open>The action names of the dispatch table.\<close>

definition actionTable :: "string set" where
  "actionTable = {''send'', ''react'', ''reactions'', ''read'', ''edit'', ''delete'',
                  ''pin'', ''unpin'', ''list-pins''}"

definition setGate :: "config \<Rightarrow> string \<Rightarrow> bool \<Rightarrow> config" where
  \<comment> \<open>the configuration with \<^verbatim>\<open>actions[g]\<close> set to \<open>b\<close>\<close>
  "setGate cfg g b = cfg\<lparr>actions := (actions cfg)(g \<mapsto> b)\<rparr>"

text \<open>A parameter that is missing or blank: not a string, or a string of white space only.\<close>

definition blank :: "params \<Rightarrow> string \<Rightarrow> bool" where
  "blank ps key = (case ps key of Some (JString s) \<Rightarrow> js_trim s = [] | _ \<Rightarrow> True)"

definition missing :: "params \<Rightarrow> string \<Rightarrow> bool" where
  \<comment> \<open>a parameter that is missing: not a string at all\<close>
  "missing ps key = (case ps key of Some (JString s) \<Rightarrow> False | _ \<Rightarrow> True)"

text \<open>
  An account that \<^verbatim>\<open>resolveClient\<close> refuses: its token is undefined or blank, or its base
  URL is undefined or nothing but slashes. \<open>missingCredentials\<close> is the error thrown then.
\<close>

definition tokenMissing :: "account \<Rightarrow> bool" where
  "tokenMissing a = (case botToken a of None \<Rightarrow> True | Some t \<Rightarrow> js_trim t = [])"

definition baseUrlMissing :: "account \<Rightarrow> bool" where
  "baseUrlMissing a =
     (case normalizeMattermostBaseUrl (baseUrl a) of None \<Rightarrow> True | Some u \<Rightarrow> u = [])"

definition missingCredentials :: "account \<Rightarrow> error" where
  "missingCredentials a =
     ConfigurationError
       ((if tokenMissing a then ''Mattermost bot token missing for account ''
         else ''Mattermost baseUrl missing for account '')
        @ [CHR 0x22] @ accountId a @ [CHR 0x22])"

text \<open>
  An outcome that stopped before any remote call, with the error \<open>e\<close> or with a
  validation error.
\<close>

definition stopped :: "error \<Rightarrow> actionResult io \<Rightarrow> bool" where
  "stopped e r =
     (case r of
        ([], Inl x) \<Rightarrow> x = e \<or> (case x of ValidationError _ \<Rightarrow> True | _ \<Rightarrow> False)
      | _ \<Rightarrow> False)"

subsection \<open>Test fixtures\<close>

text \<open>The configuration, client and remote answers that \<^verbatim>\<open>actions.test.ts\<close> sets up.\<close>

definition testAccount :: account where
  "testAccount =
     \<lparr>accountId = ''default'', botToken = Some ''bot-tok'',
      baseUrl = Some ''https://mm.test'', enabled = True\<rparr>"

definition mmCfg :: config where
  "mmCfg = \<lparr>accounts = [testAccount], actions = Map.empty\<rparr>"

definition disabledCfg :: config where
  "disabledCfg =
     \<lparr>accounts = [testAccount\<lparr>enabled := False\<rparr>, testAccount\<lparr>botToken := Some []\<rparr>],
      actions = [''pins'' \<mapsto> True]\<rparr>"

definition testClient :: client where
  "testClient =
     \<lparr>clientBaseUrl = ''https://mm.test'', apiBaseUrl = ''https://mm.test/api/v4'',
      token = ''bot-tok''\<rparr>"

definition testPost :: "string \<Rightarrow> string \<Rightarrow> string \<Rightarrow> int \<Rightarrow> post" where
  "testPost i u m t =
     \<lparr>p_id = Val i, p_user_id = Val u, p_message = Val m, p_create_at = Val t,
      p_root_id = Undefined, p_file_ids = Undefined\<rparr>"

definition testChannelPosts :: postList where
  "testChannelPosts =
     \<lparr>order = [''p1'', ''p2''],
      posts = [(''p1'', testPost ''p1'' ''u1'' ''first'' 1000),
               (''p2'', testPost ''p2'' ''u2'' ''second'' 2000)]\<rparr>"

definition testPinnedPosts :: postList where
  "testPinnedPosts =
     \<lparr>order = [''pin-1''],
      posts = [(''pin-1'', testPost ''pin-1'' ''u1'' ''pinned msg'' 2000)]\<rparr>"

definition testRemote :: remote where
  "testRemote =
     \<lparr>fetchMattermostMe = (\<lambda>c. Inr \<lparr>u_id = ''bot-user-id'', u_username = ''bot''\<rparr>),
      addMattermostReaction = (\<lambda>c u p e. Inr ()),
      removeMattermostReaction = (\<lambda>c u p e. Inr ()),
      getMattermostReactions = (\<lambda>c p. Inr (Some
        [\<lparr>r_user_id = Val ''u1'', r_emoji_name = Val ''thumbsup'', r_create_at = Val 1000\<rparr>])),
      getMattermostChannelPosts = (\<lambda>c ch l b a. Inr testChannelPosts),
      updateMattermostPost = (\<lambda>c p m. Inr (testPost ''post-1'' ''u1'' ''edited'' 1000)),
      deleteMattermostPost = (\<lambda>c p. Inr ()),
      pinMattermostPost = (\<lambda>c p. Inr ()),
      unpinMattermostPost = (\<lambda>c p. Inr ()),
      getPinnedMattermostPosts = (\<lambda>c ch. Inr testPinnedPosts),
      sendMessageMattermost = (\<lambda>t m a u r.
        Inr \<lparr>s_messageId = ''new-msg-1'', s_channelId = ''ch-1''\<rparr>)\<rparr>"

definition whitespaceCfg :: config where
  "whitespaceCfg =
     \<lparr>accounts = [testAccount\<lparr>botToken := Some ''  ''\<rparr>], actions = Map.empty\<rparr>"

definition slashCfg :: config where
  "slashCfg = \<lparr>accounts = [testAccount\<lparr>baseUrl := Some ''///''\<rparr>], actions = Map.empty\<rparr>"

text \<open>
  A list response whose \<^verbatim>\<open>order\<close> names a post that \<^verbatim>\<open>posts\<close> lacks, and one whose
  \<^verbatim>\<open>posts\<close> were inserted in another order than \<^verbatim>\<open>order\<close>, with empty and non-empty
  \<^verbatim>\<open>root_id\<close> and \<^verbatim>\<open>file_ids\<close>.
\<close>

definition missingPosts :: postList where
  "missingPosts =
     \<lparr>order = [''p1'', ''gone''],
      posts = [(''p1'', testPost ''p1'' ''u1'' ''first'' 1000)]\<rparr>"

definition missingRemote :: remote where
  "missingRemote =
     testRemote\<lparr>getMattermostChannelPosts := (\<lambda>c ch l b a. Inr missingPosts),
                getPinnedMattermostPosts := (\<lambda>c ch. Inr missingPosts)\<rparr>"

definition rootedPosts :: postList where
  "rootedPosts =
     \<lparr>order = [''p1'', ''p2''],
      posts = [(''p2'', (testPost ''p2'' ''u2'' ''second'' 2000)
                  \<lparr>p_root_id := Val ''p1'', p_file_ids := Val [''f1'']\<rparr>),
               (''p1'', (testPost ''p1'' ''u1'' ''first'' 1000)
                  \<lparr>p_root_id := Val [], p_file_ids := Val []\<rparr>)]\<rparr>"

definition reorderedPosts :: postList where
  "reorderedPosts = rootedPosts\<lparr>posts := rev (posts rootedPosts)\<rparr>"

definition rootedRemote :: remote where
  "rootedRemote =
     testRemote\<lparr>getMattermostChannelPosts := (\<lambda>c ch l b a. Inr rootedPosts),
                getPinnedMattermostPosts := (\<lambda>c ch. Inr rootedPosts)\<rparr>"

definition reactParams :: params where
  "reactParams = [''messageId'' \<mapsto> JString ''post-1'', ''emoji'' \<mapsto> JString ''thumbsup'']"

definition readParams :: params where
  "readParams = [''to'' \<mapsto> JString ''ch-1'']"

definition explicitParams :: params where
  "explicitParams =
     [''channelId'' \<mapsto> JString ''explicit-ch'', ''to'' \<mapsto> JString ''fallback-ch'']"

definition deleteParams :: params where
  "deleteParams = [''messageId'' \<mapsto> JString ''post-1'']"

definition blankMessageParams :: params where
  "blankMessageParams = [''to'' \<mapsto> JString ''ch-1'', ''message'' \<mapsto> JString ''  '']"

section \<open>Properties\<close>

subsection \<open>Capability listing\<close>

lemma set_setAdd: "set (setAdd x xs) = insert x (set xs)"
  by (auto simp: setAdd_def)

lemma distinct_setAdd: "distinct xs \<Longrightarrow> distinct (setAdd x xs)"
  by (auto simp: setAdd_def)

lemma usable_accounts_nonempty:
  "hasUsableAccount cfg \<Longrightarrow>
   filter (\<lambda>account. truthy (botToken account) \<and> truthy (baseUrl account))
     (listEnabledMattermostAccounts cfg) \<noteq> []"
  by (auto simp: hasUsableAccount_def usable_def listEnabledMattermostAccounts_def
        filter_empty_conv list_ex_iff)

lemma listActionsOf_no_credentials:
  "\<not> list_ex (\<lambda>a. truthy (botToken a) \<and> truthy (baseUrl a)) accs \<Longrightarrow>
   listActionsOf accs cfg = []"
  by (auto simp: listActionsOf_def filter_empty_conv list_ex_iff)

lemma set_listActions:
  assumes "hasUsableAccount cfg"
  shows "set (listActions cfg) =
           {''send''} \<union> gated cfg ''reactions'' reactionActions \<union>
           gated cfg ''messages'' messageActions \<union> gated cfg ''pins'' pinActions"
  using usable_accounts_nonempty [OF assms]
  by (auto simp: listActions_def listActionsOf_def Let_def createActionGate_def gated_def
        set_setAdd reactionActions_def messageActions_def pinActions_def)

lemma distinct_listActions: "distinct (listActions cfg)"
  by (simp add: listActions_def listActionsOf_def Let_def distinct_setAdd)

lemma hasUsableAccount_setGate: "hasUsableAccount (setGate cfg g b) = hasUsableAccount cfg"
  by (simp add: hasUsableAccount_def setGate_def)

lemma gated_setGate:
  "gated (setGate cfg g b) h s = (if h = g then (if b then s else {}) else gated cfg h s)"
  by (simp add: gated_def setGate_def)

lemma hasUsableAccount_mmCfg: "hasUsableAccount mmCfg"
  by (simp add: hasUsableAccount_def mmCfg_def testAccount_def usable_def)

text \<open>
  C1. For every configuration with at least one enabled account that has a non-empty
  bot token and base URL, \<^verbatim>\<open>listActions\<close> returns \<open>send\<close> plus exactly the groups whose
  gate is open, without duplicates. With all three gates open this is the whole action
  table. Setting \<^verbatim>\<open>actions.reactions\<close> to false removes exactly \<open>react\<close> and
  \<open>reactions\<close> from what was listed, \<^verbatim>\<open>actions.messages\<close> exactly \<open>read\<close>, \<open>edit\<close>
  and \<open>delete\<close>, and \<^verbatim>\<open>actions.pins\<close> exactly \<open>pin\<close>, \<open>unpin\<close> and \<open>list-pins\<close>.
\<close>

theorem listActions_gated:
  assumes "hasUsableAccount cfg"
  shows "set (listActions cfg) =
           {''send''} \<union> gated cfg ''reactions'' reactionActions \<union>
           gated cfg ''messages'' messageActions \<union> gated cfg ''pins'' pinActions
       \<and> distinct (listActions cfg)
       \<and> (actions cfg ''reactions'' \<noteq> Some False \<and> actions cfg ''messages'' \<noteq> Some False \<and>
          actions cfg ''pins'' \<noteq> Some False \<longrightarrow> set (listActions cfg) = actionTable)
       \<and> set (listActions (setGate cfg ''reactions'' False)) =
            set (listActions cfg) - reactionActions
       \<and> set (listActions (setGate cfg ''messages'' False)) =
            set (listActions cfg) - messageActions
       \<and> set (listActions (setGate cfg ''pins'' False)) =
            set (listActions cfg) - pinActions"
proof -
  have u: "\<And>g b. hasUsableAccount (setGate cfg g b)"
    using assms by (simp add: hasUsableAccount_setGate)
  note s = set_listActions [OF assms]
  note groups = gated_def reactionActions_def messageActions_def pinActions_def
  have a: "actions cfg ''reactions'' \<noteq> Some False \<and> actions cfg ''messages'' \<noteq> Some False \<and>
           actions cfg ''pins'' \<noteq> Some False \<longrightarrow> set (listActions cfg) = actionTable"
    unfolding s by (auto simp: groups actionTable_def)
  have r: "set (listActions (setGate cfg ''reactions'' False)) =
           set (listActions cfg) - reactionActions"
    unfolding s set_listActions [OF u] gated_setGate by (auto simp: groups)
  have m: "set (listActions (setGate cfg ''messages'' False)) =
           set (listActions cfg) - messageActions"
    unfolding s set_listActions [OF u] gated_setGate by (auto simp: groups)
  have p: "set (listActions (setGate cfg ''pins'' False)) =
           set (listActions cfg) - pinActions"
    unfolding s set_listActions [OF u] gated_setGate by (auto simp: groups)
  show ?thesis using s distinct_listActions a r m p by blast
qed

theorem listActions_gated_witness:
  "hasUsableAccount mmCfg
   \<and> set (listActions mmCfg) = actionTable
   \<and> set (listActions (setGate mmCfg ''pins'' False)) =
       {''send'', ''react'', ''reactions'', ''read'', ''edit'', ''delete''}"
proof -
  have g: "actions mmCfg ''reactions'' \<noteq> Some False \<and> actions mmCfg ''messages'' \<noteq> Some False
           \<and> actions mmCfg ''pins'' \<noteq> Some False"
    by (simp add: mmCfg_def)
  from listActions_gated [OF hasUsableAccount_mmCfg] g
  have t: "set (listActions mmCfg) = actionTable"
    and p: "set (listActions (setGate mmCfg ''pins'' False)) = set (listActions mmCfg) - pinActions"
    by blast+
  have "actionTable - pinActions =
        {''send'', ''react'', ''reactions'', ''read'', ''edit'', ''delete''}"
    by (auto simp: actionTable_def pinActions_def)
  with t p hasUsableAccount_mmCfg show ?thesis by simp
qed

text \<open>
  C2. For every configuration in which no enabled account with a non-empty bot token and
  a non-empty base URL exists (no account at all, every account disabled or lacking its
  token or base URL), \<^verbatim>\<open>listActions\<close> returns the empty list, whatever the gates are.
\<close>

theorem listActions_no_account:
  assumes "\<not> hasUsableAccount cfg"
  shows "listActions cfg = []"
proof -
  have "\<not> list_ex (\<lambda>a. truthy (botToken a) \<and> truthy (baseUrl a))
            (listEnabledMattermostAccounts cfg)"
    using assms
    by (auto simp: hasUsableAccount_def usable_def listEnabledMattermostAccounts_def list_ex_iff)
  then show ?thesis
    unfolding listActions_def by (rule listActionsOf_no_credentials)
qed

theorem listActions_no_account_witness:
  "\<not> hasUsableAccount disabledCfg \<and> listActions disabledCfg = []
   \<and> \<not> hasUsableAccount \<lparr>accounts = [], actions = Map.empty\<rparr>
   \<and> listActions \<lparr>accounts = [], actions = Map.empty\<rparr> = []"
proof -
  have d: "\<not> hasUsableAccount disabledCfg"
    by (simp add: hasUsableAccount_def disabledCfg_def testAccount_def usable_def)
  have e: "\<not> hasUsableAccount \<lparr>accounts = [], actions = Map.empty\<rparr>"
    by (simp add: hasUsableAccount_def)
  show ?thesis
    using d e listActions_no_account [OF d] listActions_no_account [OF e] by simp
qed

subsection \<open>Reading parameters and dispatching\<close>

lemma readStringParam_optional:
  "\<not> required opts \<Longrightarrow> \<exists>v. readStringParam ps key opts = Inr v"
  by (auto simp: readStringParam_def Let_def split: option.splits jsvalue.splits)

lemma requestedAccountId_total: "\<exists>a. requestedAccountId ctxA ps = Inr a"
  using readStringParam_optional [of defaults ps "''accountId''"]
  by (auto simp: requestedAccountId_def defaults_def split: option.splits)

lemmas io_defs = andThen_def sync_def await_def ok_def

lemma handleAction_dispatch:
  assumes "requestedAccountId ctxA ps = Inr accId"
  shows "handleAction rem ''send'' ps cfg ctxA = handleSend rem ps accId"
    and "handleAction rem ''react'' ps cfg ctxA = handleReact rem ps cfg accId"
    and "handleAction rem ''reactions'' ps cfg ctxA = handleReactions rem ps cfg accId"
    and "handleAction rem ''read'' ps cfg ctxA = handleRead rem ps cfg accId"
    and "handleAction rem ''edit'' ps cfg ctxA = handleEdit rem ps cfg accId"
    and "handleAction rem ''delete'' ps cfg ctxA = handleDelete rem ps cfg accId"
    and "handleAction rem ''pin'' ps cfg ctxA = handlePin rem ps cfg accId"
    and "handleAction rem ''unpin'' ps cfg ctxA = handleUnpin rem ps cfg accId"
    and "handleAction rem ''list-pins'' ps cfg ctxA = handleListPins rem ps cfg accId"
  using assms
  by (simp_all add: handleAction_def handleMattermostAction_def io_defs split: prod.splits)

lemma readStringParam_value:
  "ps key = Some (JString s) \<Longrightarrow> js_trim s \<noteq> [] \<Longrightarrow>
   readStringParam ps key defaults = Inr (Some (js_trim s))"
  by (simp add: readStringParam_def defaults_def)

lemma readStringParam_blank:
  "blank ps key \<Longrightarrow> readStringParam ps key defaults = Inr None"
  by (auto simp: readStringParam_def defaults_def blank_def split: option.splits jsvalue.splits)

lemma readRequiredString_value:
  "ps key = Some (JString s) \<Longrightarrow> js_trim s \<noteq> [] \<Longrightarrow>
   readRequiredString ps key defaults = Inr (js_trim s)"
  by (simp add: readRequiredString_def readStringParam_def defaults_def)

lemma readRequiredString_blank:
  "blank ps key \<Longrightarrow>
   readRequiredString ps key defaults = Inl (ValidationError (key @ '' required''))"
  by (auto simp: readRequiredString_def readStringParam_def defaults_def blank_def
      split: option.splits jsvalue.splits)

lemma readReactionParams_value:
  "ps ''emoji'' = Some (JString e) \<Longrightarrow> js_trim e \<noteq> [] \<Longrightarrow>
   readReactionParams ps msg = Inr (js_trim e, ps ''remove'' = Some (JBool True))"
  by (simp add: readReactionParams_def readStringParam_value)

lemma readReactionParams_blank:
  "blank ps ''emoji'' \<Longrightarrow>
   readReactionParams ps msg =
     Inl (ValidationError (if ps ''remove'' = Some (JBool True) then msg else ''emoji required''))"
  by (simp add: readReactionParams_def readStringParam_blank)

lemma not_blank: "\<not> blank ps key \<Longrightarrow> \<exists>s. ps key = Some (JString s) \<and> js_trim s \<noteq> []"
  by (auto simp: blank_def split: option.splits jsvalue.splits)

lemma js_trim_plain:
  "s \<noteq> [] \<Longrightarrow> \<not> isWhiteSpace (hd s) \<Longrightarrow> \<not> isWhiteSpace (last s) \<Longrightarrow> js_trim s = s"
proof -
  assume a: "s \<noteq> []" "\<not> isWhiteSpace (hd s)" "\<not> isWhiteSpace (last s)"
  then have "dropWhile isWhiteSpace s = s" by (cases s) auto
  moreover have "dropWhile isWhiteSpace (rev s) = rev s"
    using a by (cases "rev s") (auto simp: hd_rev)
  ultimately show ?thesis by (simp add: js_trim_def)
qed

lemma js_trim_fixtures:
  "js_trim ''post-1'' = ''post-1''" "js_trim ''thumbsup'' = ''thumbsup''"
  "js_trim ''explicit-ch'' = ''explicit-ch''" "js_trim ''fallback-ch'' = ''fallback-ch''"
  "js_trim ''ch-1'' = ''ch-1''"
  by (simp_all add: js_trim_plain isWhiteSpace_def)

lemma resolveClient_mmCfg: "resolveClient mmCfg None = Inr (testClient, ''default'')"
  by (simp add: resolveClient_def resolveMattermostAccount_def mmCfg_def testAccount_def
      DEFAULT_ACCOUNT_ID_def js_trim_def isWhiteSpace_def normalizeMattermostBaseUrl_def
      createMattermostClient_def testClient_def)

lemma requestedAccountId_empty: "requestedAccountId None Map.empty = Inr None"
  by (simp add: requestedAccountId_def readStringParam_def defaults_def)

lemma requestedAccountId_fixtures:
  "requestedAccountId None readParams = Inr None"
  "requestedAccountId None explicitParams = Inr None"
  "requestedAccountId None deleteParams = Inr None"
  by (simp_all add: requestedAccountId_def readStringParam_def defaults_def readParams_def
      explicitParams_def deleteParams_def)

subsection \<open>Reactions\<close>

text \<open>
  C3. For every \<^verbatim>\<open>react\<close> call whose \<^verbatim>\<open>messageId\<close> and \<^verbatim>\<open>emoji\<close> are non-blank strings,
  on an account whose client resolves and with the remote operations succeeding, the
  adapter first fetches the bot's own identity and then issues one add-reaction call
  carrying the bot's user id, the message id as post id and the emoji, and returns
  \<^verbatim>\<open>{ok: true, added: emoji}\<close>; with \<^verbatim>\<open>remove: true\<close> the second call is a remove-reaction
  call with the same three fields and the result is \<^verbatim>\<open>{ok: true, removed: true, emoji}\<close>.
  The message id and the emoji are the parameters as \<^verbatim>\<open>readStringParam\<close> reads them: a
  non-blank string, without its surrounding white space.
\<close>

theorem react_adds_or_removes:
  assumes mid: "ps ''messageId'' = Some (JString m)" "js_trim m \<noteq> []"
    and emo: "ps ''emoji'' = Some (JString e)" "js_trim e \<noteq> []"
    and acc: "requestedAccountId ctxA ps = Inr accId"
    and cl: "resolveClient cfg accId = Inr (c, aid)"
    and me: "fetchMattermostMe rem c = Inr botUser"
  shows "(ps ''remove'' \<noteq> Some (JBool True) \<and>
          addMattermostReaction rem c (u_id botUser) (js_trim m) (js_trim e) = Inr () \<longrightarrow>
          handleAction rem ''react'' ps cfg ctxA =
            ([FetchMe c, AddReaction c (u_id botUser) (js_trim m) (js_trim e)],
             Inr (ReactAdded (js_trim e))))
       \<and> (ps ''remove'' = Some (JBool True) \<and>
          removeMattermostReaction rem c (u_id botUser) (js_trim m) (js_trim e) = Inr () \<longrightarrow>
          handleAction rem ''react'' ps cfg ctxA =
            ([FetchMe c, RemoveReaction c (u_id botUser) (js_trim m) (js_trim e)],
             Inr (ReactRemoved (js_trim e))))"
  using mid emo cl me
  by (simp add: handleAction_dispatch(2) [OF acc] handleReact_def
      readRequiredString_value readReactionParams_value io_defs)

theorem react_adds_or_removes_witness:
  "handleAction testRemote ''react'' reactParams mmCfg None =
     ([FetchMe testClient, AddReaction testClient ''bot-user-id'' ''post-1'' ''thumbsup''],
      Inr (ReactAdded ''thumbsup''))
   \<and> handleAction testRemote ''react'' (reactParams(''remove'' \<mapsto> JBool True)) mmCfg None =
     ([FetchMe testClient, RemoveReaction testClient ''bot-user-id'' ''post-1'' ''thumbsup''],
      Inr (ReactRemoved ''thumbsup''))"
proof -
  let ?u = "\<lparr>u_id = ''bot-user-id'', u_username = ''bot''\<rparr>"
  have me: "fetchMattermostMe testRemote testClient = Inr ?u"
    by (simp add: testRemote_def)
  have a1: "requestedAccountId None reactParams = Inr None"
    by (simp add: requestedAccountId_def readStringParam_def defaults_def reactParams_def)
  have a2: "requestedAccountId None (reactParams(''remove'' \<mapsto> JBool True)) = Inr None"
    by (simp add: requestedAccountId_def readStringParam_def defaults_def reactParams_def)
  have add: "handleAction testRemote ''react'' reactParams mmCfg None =
     ([FetchMe testClient, AddReaction testClient ''bot-user-id'' ''post-1'' ''thumbsup''],
      Inr (ReactAdded ''thumbsup''))"
    using react_adds_or_removes [of reactParams "''post-1''" "''thumbsup''" None None mmCfg
        testClient "''default''" testRemote ?u, OF _ _ _ _ a1 resolveClient_mmCfg me]
    by (simp add: reactParams_def js_trim_fixtures testRemote_def)
  have remove: "handleAction testRemote ''react'' (reactParams(''remove'' \<mapsto> JBool True)) mmCfg None =
     ([FetchMe testClient, RemoveReaction testClient ''bot-user-id'' ''post-1'' ''thumbsup''],
      Inr (ReactRemoved ''thumbsup''))"
    using react_adds_or_removes [of "reactParams(''remove'' \<mapsto> JBool True)" "''post-1''"
        "''thumbsup''" None None mmCfg testClient "''default''" testRemote ?u,
        OF _ _ _ _ a2 resolveClient_mmCfg me]
    by (simp add: reactParams_def js_trim_fixtures testRemote_def)
  show ?thesis using add remove by simp
qed

subsection \<open>Channel resolution and list responses\<close>

lemma resolveChannelId_channelId:
  "ps ''channelId'' = Some (JString cid) \<Longrightarrow> js_trim cid \<noteq> [] \<Longrightarrow>
   resolveChannelId ps = Inr (js_trim cid)"
  by (simp add: resolveChannelId_def readStringParam_value)

lemma resolveChannelId_to:
  "blank ps ''channelId'' \<Longrightarrow> ps ''to'' = Some (JString t) \<Longrightarrow> js_trim t \<noteq> [] \<Longrightarrow>
   resolveChannelId ps = Inr (js_trim t)"
  by (simp add: resolveChannelId_def readStringParam_blank readRequiredString_value)

lemma resolveChannelId_blank:
  "blank ps ''channelId'' \<Longrightarrow> blank ps ''to'' \<Longrightarrow>
   resolveChannelId ps = Inl (ValidationError ''to required'')"
  by (simp add: resolveChannelId_def readStringParam_blank readRequiredString_blank)

lemma handleRead_outcome:
  assumes "requestedAccountId ctxA ps = Inr accId"
    and "resolveChannelId ps = Inr ch"
    and "resolveClient cfg accId = Inr (c, aid)"
    and "readStringParam ps ''before'' defaults = Inr b"
    and "readStringParam ps ''after'' defaults = Inr a"
  shows "handleAction rem ''read'' ps cfg ctxA =
           ([GetChannelPosts c ch (readNumberParam ps ''limit'') b a],
            case getMattermostChannelPosts rem c ch (readNumberParam ps ''limit'') b a of
              Inl e \<Rightarrow> Inl e
            | Inr result \<Rightarrow> Inr (ReadOk ch (messagesOf result)))"
  using assms(2-5)
  by (simp add: handleAction_dispatch(4) [OF assms(1)] handleRead_def io_defs Let_def
      split: sum.splits)

lemma handleRead_call:
  assumes "requestedAccountId ctxA ps = Inr accId"
    and "resolveChannelId ps = Inr ch"
    and "resolveClient cfg accId = Inr (c, aid)"
  shows "\<exists>l b a. fst (handleAction rem ''read'' ps cfg ctxA) = [GetChannelPosts c ch l b a]"
proof -
  obtain b where b: "readStringParam ps ''before'' defaults = Inr b"
    using readStringParam_optional [of defaults] by (auto simp: defaults_def)
  obtain a where a: "readStringParam ps ''after'' defaults = Inr a"
    using readStringParam_optional [of defaults] by (auto simp: defaults_def)
  show ?thesis
    using handleRead_outcome [OF assms b a, of rem] by auto
qed

lemma handleListPins_outcome:
  assumes "requestedAccountId ctxA ps = Inr accId"
    and "resolveChannelId ps = Inr ch"
    and "resolveClient cfg accId = Inr (c, aid)"
  shows "handleAction rem ''list-pins'' ps cfg ctxA =
           ([GetPinnedPosts c ch],
            case getPinnedMattermostPosts rem c ch of
              Inl e \<Rightarrow> Inl e
            | Inr result \<Rightarrow> Inr (ListPinsOk ch (pinsOf result)))"
  using assms(2,3)
  by (simp add: handleAction_dispatch(9) [OF assms(1)] handleListPins_def io_defs
      split: sum.splits)

lemma channel_error_no_call:
  assumes "resolveChannelId ps = Inl e"
  shows "handleAction rem ''read'' ps cfg ctxA = ([], Inl e)"
    and "handleAction rem ''list-pins'' ps cfg ctxA = ([], Inl e)"
proof -
  obtain accId where a: "requestedAccountId ctxA ps = Inr accId"
    using requestedAccountId_total by blast
  show "handleAction rem ''read'' ps cfg ctxA = ([], Inl e)"
    using assms by (simp add: handleAction_dispatch(4) [OF a] handleRead_def io_defs)
  show "handleAction rem ''list-pins'' ps cfg ctxA = ([], Inl e)"
    using assms by (simp add: handleAction_dispatch(9) [OF a] handleListPins_def io_defs)
qed

lemma readParams_channel: "resolveChannelId readParams = Inr ''ch-1''"
proof -
  have "blank readParams ''channelId''" by (simp add: blank_def readParams_def)
  moreover have "readParams ''to'' = Some (JString ''ch-1'')" by (simp add: readParams_def)
  ultimately show ?thesis
    using resolveChannelId_to [of readParams "''ch-1''"] by (simp add: js_trim_fixtures)
qed

lemma readParams_cursors:
  "readStringParam readParams ''before'' defaults = Inr None"
  "readStringParam readParams ''after'' defaults = Inr None"
  "readNumberParam readParams ''limit'' = None"
  by (simp_all add: readStringParam_def defaults_def readParams_def readNumberParam_def)

lemma messagesOf_nth:
  "k < length (order r) \<Longrightarrow> messagesOf r ! k = toMessage (map_of (posts r) (order r ! k))"
  by (simp add: messagesOf_def)

lemma pinsOf_nth:
  "k < length (order r) \<Longrightarrow> pinsOf r ! k = toPin (map_of (posts r) (order r ! k))"
  by (simp add: pinsOf_def)

lemma map_of_insertion_order:
  "distinct (map fst xs) \<Longrightarrow> distinct (map fst ys) \<Longrightarrow> set xs = set ys \<Longrightarrow>
   map_of xs = map_of ys"
  by (simp add: map_of_inject_set)

lemma toMessage_omits:
  "m_rootId (toMessage p) \<noteq> Null" "m_rootId (toMessage p) \<noteq> Val []"
  "m_fileIds (toMessage p) \<noteq> Null" "m_fileIds (toMessage p) \<noteq> Val []"
  by (simp_all add: toMessage_def split: jsfield.splits)

lemma toMessage_rootId:
  "m_rootId (toMessage p) =
     (case p of
        None \<Rightarrow> Undefined
      | Some q \<Rightarrow> (if p_root_id q \<in> {Undefined, Null, Val []} then Undefined else p_root_id q))"
  by (simp add: toMessage_def opt_def split: option.splits jsfield.splits)

lemma toMessage_fileIds:
  "m_fileIds (toMessage p) =
     (case p of
        None \<Rightarrow> Undefined
      | Some q \<Rightarrow> (if p_file_ids q \<in> {Undefined, Null, Val []} then Undefined else p_file_ids q))"
  by (simp add: toMessage_def opt_def split: option.splits jsfield.splits)

text \<open>
  C4. For every list response \<^verbatim>\<open>{order, posts}\<close> that the remote returns to \<^verbatim>\<open>read\<close> or
  \<^verbatim>\<open>list-pins\<close>, the normalized sequence has one element per id of \<^verbatim>\<open>order\<close>, in that
  order, the element at position \<open>k\<close> being the normalization of \<^verbatim>\<open>posts[order[k]]\<close>. It
  does not depend on the insertion order of the keys of \<^verbatim>\<open>posts\<close>: two responses with the
  same \<^verbatim>\<open>order\<close> and the same entries give the same sequence. A \<^verbatim>\<open>root_id\<close> or
  \<^verbatim>\<open>file_ids\<close> that is missing, \<^verbatim>\<open>null\<close> or empty is undefined in the normalized message
  (so omitted from the JSON), never \<^verbatim>\<open>null\<close> or empty; any other value is kept.
\<close>

theorem list_normalization_order:
  assumes acc: "requestedAccountId ctxA ps = Inr accId"
    and ch: "resolveChannelId ps = Inr ch"
    and cl: "resolveClient cfg accId = Inr (c, aid)"
    and bf: "readStringParam ps ''before'' defaults = Inr b"
    and af: "readStringParam ps ''after'' defaults = Inr a"
    and rd: "getMattermostChannelPosts rem c ch (readNumberParam ps ''limit'') b a = Inr result"
    and pn: "getPinnedMattermostPosts rem c ch = Inr pinned"
  shows "handleAction rem ''read'' ps cfg ctxA =
           ([GetChannelPosts c ch (readNumberParam ps ''limit'') b a],
            Inr (ReadOk ch (messagesOf result)))
       \<and> handleAction rem ''list-pins'' ps cfg ctxA =
           ([GetPinnedPosts c ch], Inr (ListPinsOk ch (pinsOf pinned)))
       \<and> length (messagesOf result) = length (order result)
       \<and> (\<forall>k<length (order result).
            messagesOf result ! k = toMessage (map_of (posts result) (order result ! k)))
       \<and> length (pinsOf pinned) = length (order pinned)
       \<and> (\<forall>k<length (order pinned).
            pinsOf pinned ! k = toPin (map_of (posts pinned) (order pinned ! k)))
       \<and> (\<forall>other. order other = order result \<and> set (posts other) = set (posts result) \<and>
            distinct (map fst (posts other)) \<and> distinct (map fst (posts result)) \<longrightarrow>
            messagesOf other = messagesOf result)
       \<and> (\<forall>other. order other = order pinned \<and> set (posts other) = set (posts pinned) \<and>
            distinct (map fst (posts other)) \<and> distinct (map fst (posts pinned)) \<longrightarrow>
            pinsOf other = pinsOf pinned)
       \<and> (\<forall>p. m_rootId (toMessage p) =
            (case p of
               None \<Rightarrow> Undefined
             | Some q \<Rightarrow> (if p_root_id q \<in> {Undefined, Null, Val []} then Undefined
                          else p_root_id q)))
       \<and> (\<forall>p. m_fileIds (toMessage p) =
            (case p of
               None \<Rightarrow> Undefined
             | Some q \<Rightarrow> (if p_file_ids q \<in> {Undefined, Null, Val []} then Undefined
                          else p_file_ids q)))
       \<and> (\<forall>m \<in> set (messagesOf result).
            m_rootId m \<notin> {Null, Val []} \<and> m_fileIds m \<notin> {Null, Val []})"
proof -
  have r: "handleAction rem ''read'' ps cfg ctxA =
           ([GetChannelPosts c ch (readNumberParam ps ''limit'') b a],
            Inr (ReadOk ch (messagesOf result)))"
    using handleRead_outcome [OF acc ch cl bf af, of rem] rd by simp
  have p: "handleAction rem ''list-pins'' ps cfg ctxA =
           ([GetPinnedPosts c ch], Inr (ListPinsOk ch (pinsOf pinned)))"
    using handleListPins_outcome [OF acc ch cl, of rem] pn by simp
  have lm: "length (messagesOf result) = length (order result)"
    and lp: "length (pinsOf pinned) = length (order pinned)"
    by (simp_all add: messagesOf_def pinsOf_def)
  have im: "\<forall>other. order other = order result \<and> set (posts other) = set (posts result) \<and>
            distinct (map fst (posts other)) \<and> distinct (map fst (posts result)) \<longrightarrow>
            messagesOf other = messagesOf result"
    by (auto simp: messagesOf_def dest: map_of_insertion_order)
  have ip: "\<forall>other. order other = order pinned \<and> set (posts other) = set (posts pinned) \<and>
            distinct (map fst (posts other)) \<and> distinct (map fst (posts pinned)) \<longrightarrow>
            pinsOf other = pinsOf pinned"
    by (auto simp: pinsOf_def dest: map_of_insertion_order)
  have om: "\<forall>m \<in> set (messagesOf result).
            m_rootId m \<notin> {Null, Val []} \<and> m_fileIds m \<notin> {Null, Val []}"
    using toMessage_omits by (auto simp: messagesOf_def)
  show ?thesis
    using r p lm lp im ip om messagesOf_nth pinsOf_nth toMessage_rootId toMessage_fileIds
    by (intro conjI) blast+
qed

theorem list_normalization_order_witness:
  "handleAction rootedRemote ''read'' readParams mmCfg None =
     ([GetChannelPosts testClient ''ch-1'' None None None],
      Inr (ReadOk ''ch-1''
        [\<lparr>m_id = Val ''p1'', m_userId = Val ''u1'', m_message = Val ''first'',
          m_createdAt = Val 1000, m_rootId = Undefined, m_fileIds = Undefined\<rparr>,
         \<lparr>m_id = Val ''p2'', m_userId = Val ''u2'', m_message = Val ''second'',
          m_createdAt = Val 2000, m_rootId = Val ''p1'', m_fileIds = Val [''f1'']\<rparr>]))
   \<and> handleAction rootedRemote ''list-pins'' readParams mmCfg None =
     ([GetPinnedPosts testClient ''ch-1''],
      Inr (ListPinsOk ''ch-1''
        [\<lparr>pin_id = Val ''p1'', pin_userId = Val ''u1'', pin_message = Val ''first'',
          pin_createdAt = Val 1000\<rparr>,
         \<lparr>pin_id = Val ''p2'', pin_userId = Val ''u2'', pin_message = Val ''second'',
          pin_createdAt = Val 2000\<rparr>]))
   \<and> messagesOf reorderedPosts = messagesOf rootedPosts
   \<and> pinsOf reorderedPosts = pinsOf rootedPosts"
proof -
  have rd: "getMattermostChannelPosts rootedRemote testClient ''ch-1''
              (readNumberParam readParams ''limit'') None None = Inr rootedPosts"
    and pn: "getPinnedMattermostPosts rootedRemote testClient ''ch-1'' = Inr rootedPosts"
    by (simp_all add: rootedRemote_def)
  have m: "messagesOf rootedPosts =
        [\<lparr>m_id = Val ''p1'', m_userId = Val ''u1'', m_message = Val ''first'',
          m_createdAt = Val 1000, m_rootId = Undefined, m_fileIds = Undefined\<rparr>,
         \<lparr>m_id = Val ''p2'', m_userId = Val ''u2'', m_message = Val ''second'',
          m_createdAt = Val 2000, m_rootId = Val ''p1'', m_fileIds = Val [''f1'']\<rparr>]"
    by (simp add: messagesOf_def rootedPosts_def toMessage_def opt_def testPost_def)
  have p: "pinsOf rootedPosts =
        [\<lparr>pin_id = Val ''p1'', pin_userId = Val ''u1'', pin_message = Val ''first'',
          pin_createdAt = Val 1000\<rparr>,
         \<lparr>pin_id = Val ''p2'', pin_userId = Val ''u2'', pin_message = Val ''second'',
          pin_createdAt = Val 2000\<rparr>]"
    by (simp add: pinsOf_def rootedPosts_def toPin_def opt_def testPost_def)
  note t = list_normalization_order [OF requestedAccountId_fixtures(1) readParams_channel
        resolveClient_mmCfg readParams_cursors(1,2) rd pn]
  have same: "order reorderedPosts = order rootedPosts
        \<and> set (posts reorderedPosts) = set (posts rootedPosts)
        \<and> distinct (map fst (posts reorderedPosts)) \<and> distinct (map fst (posts rootedPosts))"
    by (auto simp: reorderedPosts_def rootedPosts_def)
  have im: "messagesOf reorderedPosts = messagesOf rootedPosts"
    using t same by blast
  have ip: "pinsOf reorderedPosts = pinsOf rootedPosts"
    using t same by blast
  show ?thesis
    using t im ip by (simp add: m p readParams_cursors(3))
qed

text \<open>
  C8. On an account whose client resolves: when \<^verbatim>\<open>channelId\<close> is a non-blank string, \<open>read\<close>
  and \<open>list-pins\<close> resolve the channel as the \<^verbatim>\<open>channelId\<close> value, whatever \<^verbatim>\<open>to\<close> is, and
  their remote call carries it; when \<^verbatim>\<open>channelId\<close> is missing or blank and \<^verbatim>\<open>to\<close> is a
  non-blank string, the \<^verbatim>\<open>to\<close> value is used; when both are missing or blank the action
  fails with a ValidationError and issues no remote call. The values are the parameters
  as \<^verbatim>\<open>readStringParam\<close> reads them, without their surrounding white space.
\<close>

theorem channelId_precedence:
  assumes acc: "requestedAccountId ctxA ps = Inr accId"
    and cl: "resolveClient cfg accId = Inr (c, aid)"
  shows "(\<forall>cid. ps ''channelId'' = Some (JString cid) \<and> js_trim cid \<noteq> [] \<longrightarrow>
            resolveChannelId ps = Inr (js_trim cid)
          \<and> (\<exists>l b a. fst (handleAction rem ''read'' ps cfg ctxA) =
                        [GetChannelPosts c (js_trim cid) l b a])
          \<and> fst (handleAction rem ''list-pins'' ps cfg ctxA) = [GetPinnedPosts c (js_trim cid)])
       \<and> (\<forall>t. blank ps ''channelId'' \<and> ps ''to'' = Some (JString t) \<and> js_trim t \<noteq> [] \<longrightarrow>
            resolveChannelId ps = Inr (js_trim t)
          \<and> (\<exists>l b a. fst (handleAction rem ''read'' ps cfg ctxA) =
                        [GetChannelPosts c (js_trim t) l b a])
          \<and> fst (handleAction rem ''list-pins'' ps cfg ctxA) = [GetPinnedPosts c (js_trim t)])
       \<and> (blank ps ''channelId'' \<and> blank ps ''to'' \<longrightarrow>
            resolveChannelId ps = Inl (ValidationError ''to required'')
          \<and> handleAction rem ''read'' ps cfg ctxA = ([], Inl (ValidationError ''to required''))
          \<and> handleAction rem ''list-pins'' ps cfg ctxA =
              ([], Inl (ValidationError ''to required'')))"
proof -
  have use: "(\<exists>l b a. fst (handleAction rem ''read'' ps cfg ctxA) = [GetChannelPosts c ch l b a])
       \<and> fst (handleAction rem ''list-pins'' ps cfg ctxA) = [GetPinnedPosts c ch]"
    if "resolveChannelId ps = Inr ch" for ch
    using handleRead_call [OF acc that cl, of rem] handleListPins_outcome [OF acc that cl, of rem]
    by auto
  show ?thesis
    using use resolveChannelId_channelId resolveChannelId_to
      resolveChannelId_blank channel_error_no_call
    by (intro conjI allI impI) (simp_all del: ex_simps)
qed

theorem channelId_precedence_witness:
  "resolveChannelId explicitParams = Inr ''explicit-ch''
   \<and> fst (handleAction testRemote ''list-pins'' explicitParams mmCfg None) =
       [GetPinnedPosts testClient ''explicit-ch'']
   \<and> resolveChannelId readParams = Inr ''ch-1''
   \<and> handleAction testRemote ''read'' Map.empty mmCfg None =
       ([], Inl (ValidationError ''to required''))"
proof -
  have e: "explicitParams ''channelId'' = Some (JString ''explicit-ch'')
           \<and> js_trim ''explicit-ch'' \<noteq> []"
    by (simp add: explicitParams_def js_trim_fixtures)
  have r: "blank readParams ''channelId'' \<and> readParams ''to'' = Some (JString ''ch-1'')
           \<and> js_trim ''ch-1'' \<noteq> []"
    by (simp add: blank_def readParams_def js_trim_fixtures)
  have b: "blank Map.empty ''channelId'' \<and> blank Map.empty ''to''"
    by (simp add: blank_def)
  show ?thesis
    using e r b
      channelId_precedence [OF requestedAccountId_fixtures(2) resolveClient_mmCfg, of testRemote]
      channelId_precedence [OF requestedAccountId_fixtures(1) resolveClient_mmCfg, of testRemote]
      channelId_precedence [OF requestedAccountId_empty resolveClient_mmCfg, of testRemote]
    by (simp add: js_trim_fixtures)
qed

text \<open>
  C10. For every list response that the remote returns to \<open>read\<close> or \<open>list-pins\<close>, also
  one in which an id of \<^verbatim>\<open>order\<close> has no entry in \<^verbatim>\<open>posts\<close>, the action succeeds; the
  output sequence is as long as \<^verbatim>\<open>order\<close>, and the element for an id without entry is
  kept, with every field undefined.
\<close>

theorem missing_posts_kept:
  assumes acc: "requestedAccountId ctxA ps = Inr accId"
    and ch: "resolveChannelId ps = Inr ch"
    and cl: "resolveClient cfg accId = Inr (c, aid)"
    and bf: "readStringParam ps ''before'' defaults = Inr b"
    and af: "readStringParam ps ''after'' defaults = Inr a"
    and rd: "getMattermostChannelPosts rem c ch (readNumberParam ps ''limit'') b a = Inr result"
    and pn: "getPinnedMattermostPosts rem c ch = Inr pinned"
  shows "snd (handleAction rem ''read'' ps cfg ctxA) = Inr (ReadOk ch (messagesOf result))
       \<and> length (messagesOf result) = length (order result)
       \<and> (\<forall>k<length (order result). map_of (posts result) (order result ! k) = None \<longrightarrow>
            messagesOf result ! k =
              \<lparr>m_id = Undefined, m_userId = Undefined, m_message = Undefined,
               m_createdAt = Undefined, m_rootId = Undefined, m_fileIds = Undefined\<rparr>)
       \<and> snd (handleAction rem ''list-pins'' ps cfg ctxA) = Inr (ListPinsOk ch (pinsOf pinned))
       \<and> length (pinsOf pinned) = length (order pinned)
       \<and> (\<forall>k<length (order pinned). map_of (posts pinned) (order pinned ! k) = None \<longrightarrow>
            pinsOf pinned ! k =
              \<lparr>pin_id = Undefined, pin_userId = Undefined, pin_message = Undefined,
               pin_createdAt = Undefined\<rparr>)"
proof -
  have r: "snd (handleAction rem ''read'' ps cfg ctxA) = Inr (ReadOk ch (messagesOf result))"
    using handleRead_outcome [OF acc ch cl bf af, of rem] rd by simp
  have p: "snd (handleAction rem ''list-pins'' ps cfg ctxA) = Inr (ListPinsOk ch (pinsOf pinned))"
    using handleListPins_outcome [OF acc ch cl, of rem] pn by simp
  have m: "\<forall>k<length (order result). map_of (posts result) (order result ! k) = None \<longrightarrow>
            messagesOf result ! k =
              \<lparr>m_id = Undefined, m_userId = Undefined, m_message = Undefined,
               m_createdAt = Undefined, m_rootId = Undefined, m_fileIds = Undefined\<rparr>"
    by (simp add: messagesOf_def toMessage_def opt_def)
  have q: "\<forall>k<length (order pinned). map_of (posts pinned) (order pinned ! k) = None \<longrightarrow>
            pinsOf pinned ! k =
              \<lparr>pin_id = Undefined, pin_userId = Undefined, pin_message = Undefined,
               pin_createdAt = Undefined\<rparr>"
    by (simp add: pinsOf_def toPin_def opt_def)
  show ?thesis
    using r p m q by (simp add: messagesOf_def pinsOf_def)
qed

theorem missing_posts_kept_witness:
  "snd (handleAction missingRemote ''read'' readParams mmCfg None) =
     Inr (ReadOk ''ch-1''
        [\<lparr>m_id = Val ''p1'', m_userId = Val ''u1'', m_message = Val ''first'',
          m_createdAt = Val 1000, m_rootId = Undefined, m_fileIds = Undefined\<rparr>,
         \<lparr>m_id = Undefined, m_userId = Undefined, m_message = Undefined,
          m_createdAt = Undefined, m_rootId = Undefined, m_fileIds = Undefined\<rparr>])
   \<and> snd (handleAction missingRemote ''list-pins'' readParams mmCfg None) =
     Inr (ListPinsOk ''ch-1''
        [\<lparr>pin_id = Val ''p1'', pin_userId = Val ''u1'', pin_message = Val ''first'',
          pin_createdAt = Val 1000\<rparr>,
         \<lparr>pin_id = Undefined, pin_userId = Undefined, pin_message = Undefined,
          pin_createdAt = Undefined\<rparr>])"
proof -
  have rd: "getMattermostChannelPosts missingRemote testClient ''ch-1''
              (readNumberParam readParams ''limit'') None None = Inr missingPosts"
    and pn: "getPinnedMattermostPosts missingRemote testClient ''ch-1'' = Inr missingPosts"
    by (simp_all add: missingRemote_def)
  have m: "messagesOf missingPosts =
        [\<lparr>m_id = Val ''p1'', m_userId = Val ''u1'', m_message = Val ''first'',
          m_createdAt = Val 1000, m_rootId = Undefined, m_fileIds = Undefined\<rparr>,
         \<lparr>m_id = Undefined, m_userId = Undefined, m_message = Undefined,
          m_createdAt = Undefined, m_rootId = Undefined, m_fileIds = Undefined\<rparr>]"
    by (simp add: messagesOf_def missingPosts_def toMessage_def opt_def testPost_def)
  have p: "pinsOf missingPosts =
        [\<lparr>pin_id = Val ''p1'', pin_userId = Val ''u1'', pin_message = Val ''first'',
          pin_createdAt = Val 1000\<rparr>,
         \<lparr>pin_id = Undefined, pin_userId = Undefined, pin_message = Undefined,
          pin_createdAt = Undefined\<rparr>]"
    by (simp add: pinsOf_def missingPosts_def toPin_def opt_def testPost_def)
  show ?thesis
    using missing_posts_kept [OF requestedAccountId_fixtures(1) readParams_channel
        resolveClient_mmCfg readParams_cursors(1,2) rd pn]
    by (simp add: m p)
qed

subsection \<open>Parameter validation\<close>

lemma messageId_blank:
  assumes "blank ps ''messageId''"
  shows "handleAction rem ''react'' ps cfg ctxA = ([], Inl (ValidationError ''messageId required''))"
    and "handleAction rem ''reactions'' ps cfg ctxA = ([], Inl (ValidationError ''messageId required''))"
    and "handleAction rem ''edit'' ps cfg ctxA = ([], Inl (ValidationError ''messageId required''))"
    and "handleAction rem ''delete'' ps cfg ctxA = ([], Inl (ValidationError ''messageId required''))"
    and "handleAction rem ''pin'' ps cfg ctxA = ([], Inl (ValidationError ''messageId required''))"
    and "handleAction rem ''unpin'' ps cfg ctxA = ([], Inl (ValidationError ''messageId required''))"
proof -
  obtain accId where a: "requestedAccountId ctxA ps = Inr accId"
    using requestedAccountId_total by blast
  note r = readRequiredString_blank [OF assms]
  show "handleAction rem ''react'' ps cfg ctxA = ([], Inl (ValidationError ''messageId required''))"
    by (simp add: handleAction_dispatch(2) [OF a] handleReact_def r io_defs)
  show "handleAction rem ''reactions'' ps cfg ctxA = ([], Inl (ValidationError ''messageId required''))"
    by (simp add: handleAction_dispatch(3) [OF a] handleReactions_def r io_defs)
  show "handleAction rem ''edit'' ps cfg ctxA = ([], Inl (ValidationError ''messageId required''))"
    by (simp add: handleAction_dispatch(5) [OF a] handleEdit_def r io_defs)
  show "handleAction rem ''delete'' ps cfg ctxA = ([], Inl (ValidationError ''messageId required''))"
    by (simp add: handleAction_dispatch(6) [OF a] handleDelete_def r io_defs)
  show "handleAction rem ''pin'' ps cfg ctxA = ([], Inl (ValidationError ''messageId required''))"
    by (simp add: handleAction_dispatch(7) [OF a] handlePin_def r io_defs)
  show "handleAction rem ''unpin'' ps cfg ctxA = ([], Inl (ValidationError ''messageId required''))"
    by (simp add: handleAction_dispatch(8) [OF a] handleUnpin_def r io_defs)
qed

lemma emoji_blank:
  assumes "\<not> blank ps ''messageId''" and "blank ps ''emoji''"
  shows "handleAction rem ''react'' ps cfg ctxA =
           ([], Inl (ValidationError
                  (if ps ''remove'' = Some (JBool True) then removeErrorMessage
                   else ''emoji required'')))"
proof -
  obtain accId where a: "requestedAccountId ctxA ps = Inr accId"
    using requestedAccountId_total by blast
  obtain s where s: "ps ''messageId'' = Some (JString s)" "js_trim s \<noteq> []"
    using not_blank [OF assms(1)] by blast
  show ?thesis
    using s
    by (simp add: handleAction_dispatch(2) [OF a] handleReact_def
        readRequiredString_value readReactionParams_blank [OF assms(2)]
        removeErrorMessage_def io_defs)
qed

lemma edit_message_blank:
  assumes "\<not> blank ps ''messageId''" and "blank ps ''message''"
  shows "handleAction rem ''edit'' ps cfg ctxA = ([], Inl (ValidationError ''message required''))"
proof -
  obtain accId where a: "requestedAccountId ctxA ps = Inr accId"
    using requestedAccountId_total by blast
  obtain s where s: "ps ''messageId'' = Some (JString s)" "js_trim s \<noteq> []"
    using not_blank [OF assms(1)] by blast
  show ?thesis
    using s
    by (simp add: handleAction_dispatch(5) [OF a] handleEdit_def
        readRequiredString_value readRequiredString_blank [OF assms(2)] io_defs)
qed

lemma send_to_blank:
  assumes "blank ps ''to''"
  shows "handleAction rem ''send'' ps cfg ctxA = ([], Inl (ValidationError ''to required''))"
proof -
  obtain accId where a: "requestedAccountId ctxA ps = Inr accId"
    using requestedAccountId_total by blast
  show ?thesis
    by (simp add: handleAction_dispatch(1) [OF a] handleSend_def
        readRequiredString_blank [OF assms] io_defs)
qed

lemma send_message_missing:
  assumes "\<not> blank ps ''to''" and "missing ps ''message''"
  shows "handleAction rem ''send'' ps cfg ctxA = ([], Inl (ValidationError ''message required''))"
proof -
  obtain accId where a: "requestedAccountId ctxA ps = Inr accId"
    using requestedAccountId_total by blast
  obtain s where s: "ps ''to'' = Some (JString s)" "js_trim s \<noteq> []"
    using not_blank [OF assms(1)] by blast
  have m: "readRequiredString ps ''message'' (defaults\<lparr>allowEmpty := True\<rparr>) =
           Inl (ValidationError ''message required'')"
    using assms(2)
    by (auto simp: missing_def readRequiredString_def readStringParam_def defaults_def
        split: option.splits jsvalue.splits)
  show ?thesis
    using s
    by (simp add: handleAction_dispatch(1) [OF a] handleSend_def
        readRequiredString_value m io_defs)
qed

text \<open>
  C5 (as amended). A required string parameter that is missing or blank makes
  \<^verbatim>\<open>handleAction\<close> fail with a ValidationError naming the field, and no remote call is
  issued: \<^verbatim>\<open>messageId\<close> for \<open>react\<close>, \<open>reactions\<close>, \<open>edit\<close>, \<open>delete\<close>, \<open>pin\<close> and
  \<open>unpin\<close>; then \<^verbatim>\<open>emoji\<close> for \<open>react\<close> (the removal message, which mentions the emoji,
  when \<^verbatim>\<open>remove\<close> is true) and \<^verbatim>\<open>message\<close> for \<open>edit\<close>; \<^verbatim>\<open>to\<close> for \<open>send\<close>, and for
  \<open>read\<close> and \<open>list-pins\<close> when \<^verbatim>\<open>channelId\<close> is missing or blank too. The \<^verbatim>\<open>message\<close>
  of \<open>send\<close> is read with \<^verbatim>\<open>allowEmpty\<close>: it is rejected when it is missing, and any
  string, blank or not, is accepted.
\<close>

theorem required_params_validated:
  "(blank ps ''messageId'' \<longrightarrow>
      (\<forall>action \<in> {''react'', ''reactions'', ''edit'', ''delete'', ''pin'', ''unpin''}.
         handleAction rem action ps cfg ctxA = ([], Inl (ValidationError ''messageId required''))))
   \<and> (\<not> blank ps ''messageId'' \<and> blank ps ''emoji'' \<longrightarrow>
        handleAction rem ''react'' ps cfg ctxA =
          ([], Inl (ValidationError
                 (if ps ''remove'' = Some (JBool True) then removeErrorMessage
                  else ''emoji required''))))
   \<and> (\<not> blank ps ''messageId'' \<and> blank ps ''message'' \<longrightarrow>
        handleAction rem ''edit'' ps cfg ctxA = ([], Inl (ValidationError ''message required'')))
   \<and> (blank ps ''to'' \<longrightarrow>
        handleAction rem ''send'' ps cfg ctxA = ([], Inl (ValidationError ''to required'')))
   \<and> (\<not> blank ps ''to'' \<and> missing ps ''message'' \<longrightarrow>
        handleAction rem ''send'' ps cfg ctxA = ([], Inl (ValidationError ''message required'')))
   \<and> (blank ps ''channelId'' \<and> blank ps ''to'' \<longrightarrow>
        handleAction rem ''read'' ps cfg ctxA = ([], Inl (ValidationError ''to required''))
        \<and> handleAction rem ''list-pins'' ps cfg ctxA = ([], Inl (ValidationError ''to required'')))
   \<and> (\<forall>s. ps ''message'' = Some (JString s) \<longrightarrow>
        readRequiredString ps ''message'' (defaults\<lparr>allowEmpty := True\<rparr>) = Inr (js_trim s))
   \<and> sublist ''emoji'' removeErrorMessage"
proof -
  have e: "\<forall>s. ps ''message'' = Some (JString s) \<longrightarrow>
        readRequiredString ps ''message'' (defaults\<lparr>allowEmpty := True\<rparr>) = Inr (js_trim s)"
    by (simp add: readRequiredString_def readStringParam_def defaults_def)
  have "removeErrorMessage = ''Removing a Mattermost reaction requires an '' @ ''emoji'' @ '' name.''"
    by (simp add: removeErrorMessage_def)
  then have s: "sublist ''emoji'' removeErrorMessage"
    by (metis sublist_appendI)
  show ?thesis
    using messageId_blank [of ps rem cfg ctxA] emoji_blank [of ps rem cfg ctxA]
      edit_message_blank [of ps rem cfg ctxA] send_to_blank [of ps rem cfg ctxA]
      send_message_missing [of ps rem cfg ctxA]
      channel_error_no_call [OF resolveChannelId_blank, of ps rem cfg ctxA] s e
    by (intro conjI impI ballI) auto
qed

theorem required_params_validated_witness:
  "blank [''messageId'' \<mapsto> JString ''post-1''] ''emoji''
   \<and> handleAction testRemote ''react'' [''messageId'' \<mapsto> JString ''post-1''] mmCfg None =
       ([], Inl (ValidationError ''emoji required''))
   \<and> blank [''emoji'' \<mapsto> JString ''thumbsup''] ''messageId''
   \<and> handleAction testRemote ''react'' [''emoji'' \<mapsto> JString ''thumbsup''] mmCfg None =
       ([], Inl (ValidationError ''messageId required''))"
proof -
  have a: "\<not> blank [''messageId'' \<mapsto> JString ''post-1''] ''messageId''
           \<and> blank [''messageId'' \<mapsto> JString ''post-1''] ''emoji''
           \<and> [''messageId'' \<mapsto> JString ''post-1''] ''remove'' \<noteq> Some (JBool True)"
    by (simp add: blank_def js_trim_fixtures)
  have b: "blank [''emoji'' \<mapsto> JString ''thumbsup''] ''messageId''"
    by (simp add: blank_def)
  show ?thesis
    using a b
      required_params_validated [of "[''messageId'' \<mapsto> JString ''post-1'']" testRemote mmCfg None]
      required_params_validated [of "[''emoji'' \<mapsto> JString ''thumbsup'']" testRemote mmCfg None]
    by simp
qed

text \<open>
  The \<^verbatim>\<open>message\<close> of \<open>send\<close> is a required string parameter, yet a blank one is not
  rejected: the send collaborator is called with the empty message.
\<close>

theorem blank_message_sent:
  "blank blankMessageParams ''message''
   \<and> handleAction testRemote ''send'' blankMessageParams mmCfg None =
       ([SendMessage ''ch-1'' [] None None None],
        Inr (SendOk \<lparr>s_messageId = ''new-msg-1'', s_channelId = ''ch-1''\<rparr>))"
proof -
  have a: "requestedAccountId None blankMessageParams = Inr None"
    by (simp add: requestedAccountId_def readStringParam_def defaults_def blankMessageParams_def)
  have t: "js_trim ''  '' = []"
    by (simp add: js_trim_def isWhiteSpace_def)
  have "blank blankMessageParams ''message''"
    by (simp add: blank_def blankMessageParams_def t)
  moreover have "handleAction testRemote ''send'' blankMessageParams mmCfg None =
       ([SendMessage ''ch-1'' [] None None None],
        Inr (SendOk \<lparr>s_messageId = ''new-msg-1'', s_channelId = ''ch-1''\<rparr>))"
    unfolding handleAction_dispatch(1) [OF a]
    by (simp add: handleSend_def readRequiredString_def
        readStringParam_def defaults_def blankMessageParams_def t js_trim_fixtures
        testRemote_def io_defs)
  ultimately show ?thesis by simp
qed

subsection \<open>Unsupported actions\<close>

lemma unsupported_dispatch:
  assumes "action \<notin> actionTable"
  shows "handleMattermostAction rem action ps cfg ctxA =
           ([], Inl (UnsupportedActionError (unsupportedMessage action)))"
proof -
  obtain a where a: "requestedAccountId ctxA ps = Inr a"
    using requestedAccountId_total by blast
  show ?thesis
    using assms by (simp add: handleMattermostAction_def a actionTable_def andThen_def sync_def)
qed

text \<open>
  C6. For every action name outside the table \<open>send\<close>, \<open>react\<close>, \<open>reactions\<close>, \<open>read\<close>,
  \<open>edit\<close>, \<open>delete\<close>, \<open>pin\<close>, \<open>unpin\<close>, \<open>list-pins\<close>, and for every parameter bag,
  configuration and account id, \<^verbatim>\<open>handleAction\<close> rejects with an UnsupportedActionError
  whose message contains the action name and the words \<open>not supported\<close>; no remote call
  is issued.
\<close>

theorem handleAction_unsupported:
  assumes "action \<notin> actionTable"
  shows "handleAction rem action ps cfg ctxA =
           ([], Inl (UnsupportedActionError (unsupportedMessage action)))
       \<and> sublist action (unsupportedMessage action)
       \<and> sublist ''not supported'' (unsupportedMessage action)"
proof -
  have n: "sublist action (unsupportedMessage action)"
    unfolding unsupportedMessage_def by (rule sublist_appendI)
  have "unsupportedMessage action =
        (''Action '' @ action @ '' is '') @ ''not supported'' @ '' for Mattermost.''"
    by (simp add: unsupportedMessage_def)
  then have m: "sublist ''not supported'' (unsupportedMessage action)"
    by (metis sublist_appendI)
  show ?thesis
    using unsupported_dispatch [OF assms] n m by (simp add: handleAction_def)
qed

theorem handleAction_unsupported_witness:
  "''unknownAction'' \<notin> actionTable
   \<and> handleAction testRemote ''unknownAction'' Map.empty mmCfg None =
       ([], Inl (UnsupportedActionError
                  ''Action unknownAction is not supported for Mattermost.''))"
proof -
  have u: "''unknownAction'' \<notin> actionTable"
    by (simp add: actionTable_def)
  show ?thesis
    using u handleAction_unsupported [OF u, of testRemote Map.empty mmCfg None]
    by (simp add: unsupportedMessage_def)
qed

subsection \<open>Missing credentials\<close>

lemma resolveClient_missing:
  assumes "resolveMattermostAccount cfg accId = Inr a"
    and "tokenMissing a \<or> baseUrlMissing a"
  shows "resolveClient cfg accId = Inl (missingCredentials a)"
  using assms
  by (auto simp: resolveClient_def missingCredentials_def tokenMissing_def baseUrlMissing_def
      Let_def split: option.splits)

lemma readRequiredString_error:
  "readRequiredString ps key opts = Inl e \<Longrightarrow> \<exists>v. e = ValidationError v"
  by (auto simp: readRequiredString_def readStringParam_def Let_def
      split: option.splits jsvalue.splits if_splits sum.splits)

lemma readStringParam_error:
  "readStringParam ps key opts = Inl e \<Longrightarrow> \<exists>v. e = ValidationError v"
  by (auto simp: readStringParam_def Let_def split: option.splits jsvalue.splits if_splits)

lemma readReactionParams_error:
  "readReactionParams ps msg = Inl e \<Longrightarrow> \<exists>v. e = ValidationError v"
  by (auto simp: readReactionParams_def Let_def dest: readStringParam_error
      split: option.splits sum.splits)

lemma resolveChannelId_error:
  "resolveChannelId ps = Inl e \<Longrightarrow> \<exists>v. e = ValidationError v"
  by (auto simp: resolveChannelId_def dest: readStringParam_error readRequiredString_error
      split: option.splits sum.splits)

lemma handlers_stopped:
  assumes "resolveClient cfg accId = Inl e"
  shows "stopped e (handleReact rem ps cfg accId)"
    and "stopped e (handleReactions rem ps cfg accId)"
    and "stopped e (handleRead rem ps cfg accId)"
    and "stopped e (handleEdit rem ps cfg accId)"
    and "stopped e (handleDelete rem ps cfg accId)"
    and "stopped e (handlePin rem ps cfg accId)"
    and "stopped e (handleUnpin rem ps cfg accId)"
    and "stopped e (handleListPins rem ps cfg accId)"
proof -
  show "stopped e (handleReact rem ps cfg accId)"
    using assms
    by (auto simp: stopped_def handleReact_def io_defs
        dest: readRequiredString_error readReactionParams_error split: sum.splits)
  show "stopped e (handleReactions rem ps cfg accId)"
    using assms
    by (auto simp: stopped_def handleReactions_def io_defs
        dest: readRequiredString_error split: sum.splits)
  show "stopped e (handleRead rem ps cfg accId)"
    using assms
    by (auto simp: stopped_def handleRead_def io_defs Let_def
        dest: resolveChannelId_error readStringParam_error split: sum.splits)
  show "stopped e (handleEdit rem ps cfg accId)"
    using assms
    by (auto simp: stopped_def handleEdit_def io_defs
        dest: readRequiredString_error split: sum.splits)
  show "stopped e (handleDelete rem ps cfg accId)"
    using assms
    by (auto simp: stopped_def handleDelete_def io_defs
        dest: readRequiredString_error split: sum.splits)
  show "stopped e (handlePin rem ps cfg accId)"
    using assms
    by (auto simp: stopped_def handlePin_def io_defs
        dest: readRequiredString_error split: sum.splits)
  show "stopped e (handleUnpin rem ps cfg accId)"
    using assms
    by (auto simp: stopped_def handleUnpin_def io_defs
        dest: readRequiredString_error split: sum.splits)
  show "stopped e (handleListPins rem ps cfg accId)"
    using assms
    by (auto simp: stopped_def handleListPins_def io_defs
        dest: resolveChannelId_error split: sum.splits)
qed

lemma dispatch_stopped:
  assumes "resolveClient cfg accId = Inl e"
    and "requestedAccountId ctxA ps = Inr accId"
    and "action \<in> actionTable - {''send''}"
  shows "stopped e (handleAction rem action ps cfg ctxA)"
  using assms(3) handlers_stopped [OF assms(1), of rem ps] handleAction_dispatch [OF assms(2), of rem cfg]
  by (auto simp: actionTable_def)

lemma validated_config_error:
  assumes "resolveClient cfg accId = Inl e"
    and "requestedAccountId ctxA ps = Inr accId"
    and "\<not> blank ps ''messageId''"
  shows "\<not> blank ps ''emoji'' \<Longrightarrow> handleAction rem ''react'' ps cfg ctxA = ([], Inl e)"
    and "handleAction rem ''reactions'' ps cfg ctxA = ([], Inl e)"
    and "\<not> blank ps ''message'' \<Longrightarrow> handleAction rem ''edit'' ps cfg ctxA = ([], Inl e)"
    and "handleAction rem ''delete'' ps cfg ctxA = ([], Inl e)"
    and "handleAction rem ''pin'' ps cfg ctxA = ([], Inl e)"
    and "handleAction rem ''unpin'' ps cfg ctxA = ([], Inl e)"
proof -
  obtain s where s: "ps ''messageId'' = Some (JString s)" "js_trim s \<noteq> []"
    using not_blank [OF assms(3)] by blast
  note d = handleAction_dispatch [OF assms(2), of rem cfg]
  show "handleAction rem ''react'' ps cfg ctxA = ([], Inl e)" if nb: "\<not> blank ps ''emoji''"
  proof -
    obtain t where t: "ps ''emoji'' = Some (JString t)" "js_trim t \<noteq> []"
      using not_blank [OF nb] by blast
    show ?thesis
      using s t assms(1)
      by (simp add: d handleReact_def readRequiredString_value readReactionParams_value io_defs)
  qed
  show "handleAction rem ''edit'' ps cfg ctxA = ([], Inl e)" if nb: "\<not> blank ps ''message''"
  proof -
    obtain t where t: "ps ''message'' = Some (JString t)" "js_trim t \<noteq> []"
      using not_blank [OF nb] by blast
    show ?thesis
      using s t assms(1)
      by (simp add: d handleEdit_def readRequiredString_value io_defs)
  qed
  show "handleAction rem ''reactions'' ps cfg ctxA = ([], Inl e)"
    using s assms(1) by (simp add: d handleReactions_def readRequiredString_value io_defs)
  show "handleAction rem ''delete'' ps cfg ctxA = ([], Inl e)"
    using s assms(1) by (simp add: d handleDelete_def readRequiredString_value io_defs)
  show "handleAction rem ''pin'' ps cfg ctxA = ([], Inl e)"
    using s assms(1) by (simp add: d handlePin_def readRequiredString_value io_defs)
  show "handleAction rem ''unpin'' ps cfg ctxA = ([], Inl e)"
    using s assms(1) by (simp add: d handleUnpin_def readRequiredString_value io_defs)
qed

lemma channel_config_error:
  assumes "resolveClient cfg accId = Inl e"
    and "requestedAccountId ctxA ps = Inr accId"
    and "resolveChannelId ps = Inr ch"
  shows "handleAction rem ''read'' ps cfg ctxA = ([], Inl e)"
    and "handleAction rem ''list-pins'' ps cfg ctxA = ([], Inl e)"
proof -
  obtain b where b: "readStringParam ps ''before'' defaults = Inr b"
    using readStringParam_optional [of defaults] by (auto simp: defaults_def)
  obtain a where a: "readStringParam ps ''after'' defaults = Inr a"
    using readStringParam_optional [of defaults] by (auto simp: defaults_def)
  note d = handleAction_dispatch [OF assms(2), of rem cfg]
  show "handleAction rem ''read'' ps cfg ctxA = ([], Inl e)"
    using assms(1,3) a b by (simp add: d handleRead_def io_defs Let_def)
  show "handleAction rem ''list-pins'' ps cfg ctxA = ([], Inl e)"
    using assms(1,3) by (simp add: d handleListPins_def io_defs)
qed

lemma listActionsOf_drops_unusable:
  "listActionsOf accs cfg =
   listActionsOf (filter (\<lambda>a. truthy (botToken a) \<and> truthy (baseUrl a)) accs) cfg"
  by (simp add: listActionsOf_def)

lemma sublist_accountId: "sublist (accountId a) (errorMessage (missingCredentials a))"
proof -
  have "\<exists>p. errorMessage (missingCredentials a) = p @ accountId a @ [CHR 0x22]"
    by (simp add: missingCredentials_def)
  then show ?thesis by (metis sublist_appendI)
qed

text \<open>
  C7 (as amended). When the resolved account's bot token is undefined, empty or white
  space, or its base URL is undefined or normalizes to the empty string, \<^verbatim>\<open>resolveClient\<close>
  throws a ConfigurationError whose message names the account. Every dispatch of a
  non-send action on that account then fails without a remote call: with that
  ConfigurationError once the parameters of the action validate, with the ValidationError
  otherwise. \<^verbatim>\<open>listActions\<close> filters out the accounts whose bot token or base URL is
  undefined or the empty string.
\<close>

theorem missing_credentials_stop:
  assumes r: "resolveMattermostAccount cfg accId = Inr acct"
    and m: "tokenMissing acct \<or> baseUrlMissing acct"
  shows "resolveClient cfg accId = Inl (missingCredentials acct)
       \<and> sublist (accountId acct) (errorMessage (missingCredentials acct))
       \<and> (\<forall>action \<in> actionTable - {''send''}.
            requestedAccountId ctxA ps = Inr accId \<longrightarrow>
            stopped (missingCredentials acct) (handleAction rem action ps cfg ctxA))
       \<and> (requestedAccountId ctxA ps = Inr accId \<and> \<not> blank ps ''messageId'' \<longrightarrow>
            (\<forall>action \<in> {''reactions'', ''delete'', ''pin'', ''unpin''}.
               handleAction rem action ps cfg ctxA = ([], Inl (missingCredentials acct)))
            \<and> (\<not> blank ps ''emoji'' \<longrightarrow>
                 handleAction rem ''react'' ps cfg ctxA = ([], Inl (missingCredentials acct)))
            \<and> (\<not> blank ps ''message'' \<longrightarrow>
                 handleAction rem ''edit'' ps cfg ctxA = ([], Inl (missingCredentials acct))))
       \<and> (requestedAccountId ctxA ps = Inr accId \<and> (\<exists>ch. resolveChannelId ps = Inr ch) \<longrightarrow>
            handleAction rem ''read'' ps cfg ctxA = ([], Inl (missingCredentials acct))
            \<and> handleAction rem ''list-pins'' ps cfg ctxA = ([], Inl (missingCredentials acct)))
       \<and> (\<forall>accs. listActionsOf accs cfg =
            listActionsOf (filter (\<lambda>a. truthy (botToken a) \<and> truthy (baseUrl a)) accs) cfg)
       \<and> (botToken acct \<in> {None, Some []} \<or> baseUrl acct \<in> {None, Some []} \<longrightarrow>
            acct \<notin> set (listEnabledMattermostAccounts cfg)
            \<and> (\<forall>accs. listActionsOf (acct # accs) cfg = listActionsOf accs cfg))"
proof -
  note c = resolveClient_missing [OF r m]
  have l: "botToken acct \<in> {None, Some []} \<or> baseUrl acct \<in> {None, Some []} \<longrightarrow>
            acct \<notin> set (listEnabledMattermostAccounts cfg)
            \<and> (\<forall>accs. listActionsOf (acct # accs) cfg = listActionsOf accs cfg)"
    by (auto simp: listEnabledMattermostAccounts_def listActionsOf_def)
  show ?thesis
    using c sublist_accountId [of acct] l
      dispatch_stopped [OF c, of ctxA ps _ rem]
      validated_config_error [OF c, of ctxA ps rem]
      channel_config_error [OF c, of ctxA ps _ rem]
      listActionsOf_drops_unusable [of _ cfg]
    by (intro conjI impI ballI allI) auto
qed

theorem missing_credentials_stop_witness:
  "resolveMattermostAccount slashCfg None = Inr (testAccount\<lparr>baseUrl := Some ''///''\<rparr>)
   \<and> baseUrlMissing (testAccount\<lparr>baseUrl := Some ''///''\<rparr>)
   \<and> resolveClient slashCfg None =
       Inl (ConfigurationError
             (''Mattermost baseUrl missing for account '' @ [CHR 0x22] @ ''default'' @ [CHR 0x22]))
   \<and> handleAction testRemote ''delete'' deleteParams slashCfg None =
       ([], Inl (ConfigurationError
             (''Mattermost baseUrl missing for account '' @ [CHR 0x22] @ ''default'' @ [CHR 0x22])))"
proof -
  let ?a = "testAccount\<lparr>baseUrl := Some ''///''\<rparr>"
  have r: "resolveMattermostAccount slashCfg None = Inr ?a"
    by (simp add: resolveMattermostAccount_def slashCfg_def testAccount_def DEFAULT_ACCOUNT_ID_def)
  have m: "baseUrlMissing ?a"
    by (simp add: baseUrlMissing_def normalizeMattermostBaseUrl_def)
  have t: "\<not> tokenMissing ?a"
    by (simp add: tokenMissing_def testAccount_def js_trim_def isWhiteSpace_def)
  have c: "missingCredentials ?a =
           ConfigurationError
             (''Mattermost baseUrl missing for account '' @ [CHR 0x22] @ ''default'' @ [CHR 0x22])"
    using t by (simp add: missingCredentials_def testAccount_def)
  have d: "\<not> blank deleteParams ''messageId''"
    by (simp add: blank_def deleteParams_def js_trim_fixtures)
  have mm: "tokenMissing ?a \<or> baseUrlMissing ?a" using m by simp
  show ?thesis
    using r m d requestedAccountId_fixtures(3)
      missing_credentials_stop [OF r mm, of None deleteParams testRemote]
    unfolding c by simp
qed

text \<open>
  An account whose bot token is white space is refused by \<^verbatim>\<open>resolveClient\<close> but counted
  by \<^verbatim>\<open>listActions\<close>, whose filter tests the untrimmed token; and a dispatch on it whose
  parameters do not validate ends in the ValidationError, not in a ConfigurationError.
\<close>

theorem whitespace_token_listed:
  "resolveMattermostAccount whitespaceCfg None = Inr (testAccount\<lparr>botToken := Some ''  ''\<rparr>)
   \<and> tokenMissing (testAccount\<lparr>botToken := Some ''  ''\<rparr>)
   \<and> resolveClient whitespaceCfg None =
       Inl (ConfigurationError
             (''Mattermost bot token missing for account '' @ [CHR 0x22] @ ''default'' @ [CHR 0x22]))
   \<and> listActions whitespaceCfg =
       [''send'', ''react'', ''reactions'', ''read'', ''edit'', ''delete'', ''pin'', ''unpin'',
        ''list-pins'']
   \<and> handleAction testRemote ''react'' Map.empty whitespaceCfg None =
       ([], Inl (ValidationError ''messageId required''))"
proof -
  have t: "js_trim ''  '' = []"
    by (simp add: js_trim_def isWhiteSpace_def)
  have r: "resolveMattermostAccount whitespaceCfg None = Inr (testAccount\<lparr>botToken := Some ''  ''\<rparr>)"
    by (simp add: resolveMattermostAccount_def whitespaceCfg_def testAccount_def
        DEFAULT_ACCOUNT_ID_def)
  have m: "tokenMissing (testAccount\<lparr>botToken := Some ''  ''\<rparr>)"
    by (simp add: tokenMissing_def t)
  have c: "resolveClient whitespaceCfg None =
       Inl (ConfigurationError
             (''Mattermost bot token missing for account '' @ [CHR 0x22] @ ''default'' @ [CHR 0x22]))"
    by (simp add: resolveClient_def r t testAccount_def)
  have l: "listActions whitespaceCfg =
       [''send'', ''react'', ''reactions'', ''read'', ''edit'', ''delete'', ''pin'', ''unpin'',
        ''list-pins'']"
    by (simp add: listActions_def listActionsOf_def listEnabledMattermostAccounts_def
        whitespaceCfg_def testAccount_def createActionGate_def setAdd_def)
  have b: "blank Map.empty ''messageId''"
    by (simp add: blank_def)
  show ?thesis
    using r m c l messageId_blank(1) [OF b] by simp
qed

subsection \<open>Tool sends\<close>

text \<open>
  C9. \<^verbatim>\<open>extractToolSend\<close> returns \<^verbatim>\<open>{to: args.to}\<close> exactly when \<^verbatim>\<open>args.action\<close> is a string
  that trims to \<open>sendMessage\<close> and \<^verbatim>\<open>args.to\<close> is a non-empty string; in every other case
  it returns \<^verbatim>\<open>null\<close>.
\<close>

theorem extractToolSend_exact:
  "(extractToolSend args = Some t \<longleftrightarrow>
      (\<exists>a. args ''action'' = Some (JString a) \<and> js_trim a = ''sendMessage'')
      \<and> args ''to'' = Some (JString t) \<and> t \<noteq> [])
   \<and> (extractToolSend args = None \<longleftrightarrow>
      \<not> ((\<exists>a. args ''action'' = Some (JString a) \<and> js_trim a = ''sendMessage'')
         \<and> (\<exists>t. args ''to'' = Some (JString t) \<and> t \<noteq> [])))"
  by (auto simp: extractToolSend_def Let_def split: option.splits jsvalue.splits if_splits)

theorem extractToolSend_exact_witness:
  "extractToolSend [''action'' \<mapsto> JString '' sendMessage '', ''to'' \<mapsto> JString ''ch-123''] =
     Some ''ch-123''
   \<and> extractToolSend [''action'' \<mapsto> JString ''react'', ''to'' \<mapsto> JString ''ch-123''] = None
   \<and> extractToolSend [''action'' \<mapsto> JString ''sendMessage''] = None
   \<and> extractToolSend [''action'' \<mapsto> JString ''sendMessage'', ''to'' \<mapsto> JString []] = None
   \<and> extractToolSend [''action'' \<mapsto> JString ''sendMessage'', ''to'' \<mapsto> JNumber 7] = None"
proof -
  have t: "js_trim '' sendMessage '' = ''sendMessage''" "js_trim ''react'' \<noteq> ''sendMessage''"
    by (simp_all add: js_trim_def isWhiteSpace_def)
  show ?thesis
    using t
      extractToolSend_exact [of "[''action'' \<mapsto> JString '' sendMessage '', ''to'' \<mapsto> JString ''ch-123'']" "''ch-123''"]
      extractToolSend_exact [of "[''action'' \<mapsto> JString ''react'', ''to'' \<mapsto> JString ''ch-123'']"]
      extractToolSend_exact [of "[''action'' \<mapsto> JString ''sendMessage'']"]
      extractToolSend_exact [of "[''action'' \<mapsto> JString ''sendMessage'', ''to'' \<mapsto> JString []]"]
      extractToolSend_exact [of "[''action'' \<mapsto> JString ''sendMessage'', ''to'' \<mapsto> JNumber 7]"]
    by simp
qed

end
